theory Spec2Isabelle
  imports Main "HOL-Library.AList"
begin

section \<open>JavaScript values\<close>

text \<open>
  Tool arguments, tool results, resume data and thrown values are typed \<open>any\<close> or
  \<open>unknown\<close> in the source. They are modelled as JSON trees extended with
  \<open>undefined\<close>. An object lists each own key once, in insertion order. Numbers are
  integers here (no claim depends on fractions or NaN).
\<close>

datatype json =
    JUndefined
  | JNull
  | JBool bool
  | JNum int
  | JStr string
  | JArr "json list"
  | JObj "(string \<times> json) list"

text \<open>JavaScript truthiness, as \<open>if (v)\<close>, \<open>!v\<close> and \<open>a || b\<close> read a value.\<close>

fun truthy :: "json \<Rightarrow> bool" where
  "truthy JUndefined = False"
| "truthy JNull = False"
| "truthy (JBool b) = b"
| "truthy (JNum n) = (n \<noteq> 0)"
| "truthy (JStr s) = (s \<noteq> [])"
| "truthy (JArr xs) = True"
| "truthy (JObj kvs) = True"

definition js_or :: "json \<Rightarrow> json \<Rightarrow> json" where
  "js_or a b = (if truthy a then a else b)"

datatype js_type = TUndefined | TObject | TBoolean | TNumber | TString

text \<open>The \<open>typeof\<close> operator: \<open>null\<close> and arrays are of type \<open>'object'\<close>.\<close>

fun typeof :: "json \<Rightarrow> js_type" where
  "typeof JUndefined = TUndefined"
| "typeof JNull = TObject"
| "typeof (JBool b) = TBoolean"
| "typeof (JNum n) = TNumber"
| "typeof (JStr s) = TString"
| "typeof (JArr xs) = TObject"
| "typeof (JObj kvs) = TObject"

datatype js_error = TypeError string

text \<open>
  \<open>Object.keys(v).length\<close>. \<open>Object.keys\<close> throws a TypeError on \<open>undefined\<close> and
  \<open>null\<close>; an array has its indices as keys, a string its character positions, the
  other primitives have none.
\<close>

fun object_keys_length :: "json \<Rightarrow> js_error + nat" where
  "object_keys_length JUndefined = Inl (TypeError ''Cannot convert undefined or null to object'')"
| "object_keys_length JNull = Inl (TypeError ''Cannot convert undefined or null to object'')"
| "object_keys_length (JBool b) = Inr 0"
| "object_keys_length (JNum n) = Inr 0"
| "object_keys_length (JStr s) = Inr (length s)"
| "object_keys_length (JArr xs) = Inr (length xs)"
| "object_keys_length (JObj kvs) = Inr (length kvs)"

text \<open>
  Property read \<open>v.k\<close> on a value that is not \<open>undefined\<close> or \<open>null\<close>, for a key
  that is an own key or absent: the step reads \<open>approved\<close> and \<open>message\<close> this way,
  names that the prototypes of objects, arrays and strings do not provide.
\<close>

fun get_prop :: "json \<Rightarrow> string \<Rightarrow> json" where
  "get_prop (JObj kvs) k = (case map_of kvs k of Some v \<Rightarrow> v | None \<Rightarrow> JUndefined)"
| "get_prop v k = JUndefined"

text \<open>
  The property names every plain object inherits from \<open>Object.prototype\<close>. The step
  reads two objects under a key that comes with the request, the tool mapping
  (\<open>tools?.[toolName]\<close>) and an approval map (\<open>pendingToolApprovals?.[toolCallId]\<close>). A
  read \<open>obj[key]\<close> that finds no own key follows the prototype chain: under one of these
  names it finds a function (under \<open>__proto__\<close>, the prototype itself), which is truthy.
  Every one of them but \<open>__proto__\<close> is a writable data property, so an assignment
  \<open>obj[key] = v\<close> creates an own key; \<open>__proto__\<close> is an accessor, and an assignment of
  an object to it replaces the prototype of \<open>obj\<close> and creates no key.
\<close>

definition objectPrototypeNames :: "string list" where
  "objectPrototypeNames =
     [''constructor'', ''__defineGetter__'', ''__defineSetter__'', ''hasOwnProperty'',
      ''__lookupGetter__'', ''__lookupSetter__'', ''isPrototypeOf'', ''propertyIsEnumerable'',
      ''toString'', ''valueOf'', ''__proto__'', ''toLocaleString'']"

section \<open>Stored messages and the tool call args lookup\<close>

datatype role = System | User | Assistant | Tool

datatype invocation_state = PartialCall | Call | Result

record tool_invocation =
  inv_state :: invocation_state
  inv_toolCallId :: string
  inv_toolName :: string
  inv_args :: json
  inv_result :: json

datatype ui_part =
    ToolInvocationPart tool_invocation
  | TextPart string
  | OtherPart string

text \<open>
  A \<open>MastraDBMessage\<close>: \<open>content.parts\<close> and the legacy \<open>content.toolInvocations\<close>
  are both tested for presence by the lookup, so both are optional here.
\<close>

record db_content =
  parts :: "ui_part list option"
  toolInvocations :: "tool_invocation list option"

record db_message =
  db_id :: string
  db_role :: role
  db_content :: db_content

text \<open>
  The test both branches of \<open>findToolCallArgs\<close> apply to the args they found:
  \<open>const args = raw || {}; if (typeof args === 'object' && Object.keys(args).length > 0) return args;\<close>
  \<open>Some args\<close> is the early return, \<open>None\<close> falls through.
\<close>

definition checkArgs :: "json \<Rightarrow> js_error + json option" where
  "checkArgs raw =
     (let args = js_or raw (JObj []) in
      if typeof args = TObject then
        (case object_keys_length args of
           Inl e \<Rightarrow> Inl e
         | Inr n \<Rightarrow> if n > 0 then Inr (Some args) else Inr None)
      else Inr None)"

definition isMatchingPart :: "string \<Rightarrow> ui_part \<Rightarrow> bool" where
  "isMatchingPart toolCallId p =
     (case p of ToolInvocationPart ti \<Rightarrow> inv_toolCallId ti = toolCallId | _ \<Rightarrow> False)"

definition checkParts :: "db_message \<Rightarrow> string \<Rightarrow> js_error + json option" where
  "checkParts msg toolCallId =
     (case parts (db_content msg) of
        None \<Rightarrow> Inr None
      | Some ps \<Rightarrow>
          (case find (isMatchingPart toolCallId) ps of
             Some (ToolInvocationPart ti) \<Rightarrow> checkArgs (inv_args ti)
           | _ \<Rightarrow> Inr None))"

definition checkToolInvocations :: "db_message \<Rightarrow> string \<Rightarrow> js_error + json option" where
  "checkToolInvocations msg toolCallId =
     (case toolInvocations (db_content msg) of
        None \<Rightarrow> Inr None
      | Some invs \<Rightarrow>
          (case find (\<lambda>ti. inv_toolCallId ti = toolCallId) invs of
             Some ti \<Rightarrow> checkArgs (inv_args ti)
           | None \<Rightarrow> Inr None))"

text \<open>
  The loop \<open>for (let i = messages.length - 1; i >= 0; i--)\<close>. The counter of the model
  is \<open>i + 1\<close>: \<open>findToolCallArgs_from messages toolCallId (Suc i)\<close> is the loop about to
  read \<open>messages[i]\<close>, and at \<open>0\<close> the loop is over and the function returns \<open>{}\<close>.
\<close>

fun findToolCallArgs_from :: "db_message list \<Rightarrow> string \<Rightarrow> nat \<Rightarrow> js_error + json" where
  "findToolCallArgs_from messages toolCallId 0 = Inr (JObj [])"
| "findToolCallArgs_from messages toolCallId (Suc i) =
     (let msg = messages ! i in
      if db_role msg \<noteq> Assistant then findToolCallArgs_from messages toolCallId i
      else
        (case checkParts msg toolCallId of
           Inl e \<Rightarrow> Inl e
         | Inr (Some args) \<Rightarrow> Inr args
         | Inr None \<Rightarrow>
             (case checkToolInvocations msg toolCallId of
                Inl e \<Rightarrow> Inl e
              | Inr (Some args) \<Rightarrow> Inr args
              | Inr None \<Rightarrow> findToolCallArgs_from messages toolCallId i)))"

definition findToolCallArgs :: "db_message list \<Rightarrow> string \<Rightarrow> js_error + json" where
  "findToolCallArgs messages toolCallId =
     findToolCallArgs_from messages toolCallId (length messages)"

subsection \<open>The lookup as the specification words it\<close>

text \<open>
  A value is a non-empty mapping when it is an object with at least one key. A
  JavaScript array is an object keyed by its indices.
\<close>

fun nonEmptyMapping :: "json \<Rightarrow> bool" where
  "nonEmptyMapping (JObj kvs) = (kvs \<noteq> [])"
| "nonEmptyMapping (JArr xs) = (xs \<noteq> [])"
| "nonEmptyMapping v = False"

text \<open>
  The tool invocations a message holds, whatever their toolCallId: those of its
  tool-invocation parts, in order, and those of its legacy flat list.
\<close>

fun invocationsOf :: "ui_part list \<Rightarrow> tool_invocation list" where
  "invocationsOf [] = []"
| "invocationsOf (ToolInvocationPart ti # ps) = ti # invocationsOf ps"
| "invocationsOf (TextPart s # ps) = invocationsOf ps"
| "invocationsOf (OtherPart s # ps) = invocationsOf ps"

definition partInvocations :: "db_message \<Rightarrow> tool_invocation list" where
  "partInvocations msg = (case parts (db_content msg) of None \<Rightarrow> [] | Some ps \<Rightarrow> invocationsOf ps)"

definition legacyInvocations :: "db_message \<Rightarrow> tool_invocation list" where
  "legacyInvocations msg = (case toolInvocations (db_content msg) of None \<Rightarrow> [] | Some invs \<Rightarrow> invs)"

text \<open>An invocation matches a toolCallId when it carries that id, whatever its state.\<close>

definition carriesId :: "string \<Rightarrow> tool_invocation \<Rightarrow> bool" where
  "carriesId cid ti \<longleftrightarrow> inv_toolCallId ti = cid"

text \<open>
  The entries one message offers for a toolCallId, in the order they are checked: the
  first invocation carrying the id among the structured parts, then the first
  invocation carrying the id in the legacy flat list. The matches are the args of the
  entries.
\<close>

definition firstWithId :: "string \<Rightarrow> tool_invocation list \<Rightarrow> tool_invocation list" where
  "firstWithId cid tis = (case find (carriesId cid) tis of None \<Rightarrow> [] | Some ti \<Rightarrow> [ti])"

definition entriesOf :: "string \<Rightarrow> db_message \<Rightarrow> tool_invocation list" where
  "entriesOf cid msg = firstWithId cid (partInvocations msg) @ firstWithId cid (legacyInvocations msg)"

definition matchesOf :: "string \<Rightarrow> db_message \<Rightarrow> json list" where
  "matchesOf toolCallId msg = map inv_args (entriesOf toolCallId msg)"

text \<open>All matches of a history, newest message first, assistant messages only.\<close>

definition scanOrder :: "db_message list \<Rightarrow> string \<Rightarrow> json list" where
  "scanOrder messages toolCallId =
     concat (map (matchesOf toolCallId) (filter (\<lambda>m. db_role m = Assistant) (rev messages)))"

definition findArgs_spec :: "db_message list \<Rightarrow> string \<Rightarrow> json" where
  "findArgs_spec messages toolCallId =
     (case find nonEmptyMapping (scanOrder messages toolCallId) of
        Some args \<Rightarrow> args
      | None \<Rightarrow> JObj [])"

text \<open>
  The split representation of one tool call: a call-phase message is an assistant
  message whose first entry with non-empty args for the id is in state \<open>call\<close>; an
  empty result-phase message is an assistant message whose entries for the id are all
  in state \<open>result\<close> with empty args; a message offers no args when it is not an
  assistant message or none of its matches is a non-empty mapping.
\<close>

definition isCallPhaseMessage :: "string \<Rightarrow> db_message \<Rightarrow> tool_invocation \<Rightarrow> bool" where
  "isCallPhaseMessage toolCallId msg ti \<longleftrightarrow>
     db_role msg = Assistant \<and>
     find (\<lambda>t. nonEmptyMapping (inv_args t)) (entriesOf toolCallId msg) = Some ti \<and>
     inv_state ti = Call"

definition isEmptyResultPhaseMessage :: "string \<Rightarrow> db_message \<Rightarrow> bool" where
  "isEmptyResultPhaseMessage toolCallId msg \<longleftrightarrow>
     db_role msg = Assistant \<and>
     entriesOf toolCallId msg \<noteq> [] \<and>
     list_all (\<lambda>t. inv_state t = Result \<and> \<not> nonEmptyMapping (inv_args t)) (entriesOf toolCallId msg)"

definition offersNoArgs :: "string \<Rightarrow> db_message \<Rightarrow> bool" where
  "offersNoArgs toolCallId msg \<longleftrightarrow>
     db_role msg \<noteq> Assistant \<or> list_all (\<lambda>a. \<not> nonEmptyMapping a) (matchesOf toolCallId msg)"

text \<open>
  All entries of a message for a toolCallId, not only the first of each collection; a
  message keeps the id unique when each collection holds at most one entry with it (a
  tool call is one part, updated in place from call to result).
\<close>

definition allEntriesOf :: "string \<Rightarrow> db_message \<Rightarrow> tool_invocation list" where
  "allEntriesOf cid msg =
     filter (carriesId cid) (partInvocations msg) @ filter (carriesId cid) (legacyInvocations msg)"

definition idUnique :: "string \<Rightarrow> db_message \<Rightarrow> bool" where
  "idUnique cid msg \<longleftrightarrow>
     length (filter (carriesId cid) (partInvocations msg)) \<le> 1
     \<and> length (filter (carriesId cid) (legacyInvocations msg)) \<le> 1"

section \<open>Provider compatibility of model messages\<close>

record tool_result_part =
  tr_toolCallId :: string
  tr_toolName :: string
  tr_output :: json
  tr_input :: "json option"

datatype model_part =
    MTextPart string
  | ToolCallPart string string json
  | ToolResultPart tool_result_part
  | MOtherPart string

datatype model_content = TextContent string | PartsContent "model_part list"

record model_message =
  m_role :: role
  m_content :: model_content

subsection \<open>Gemini\<close>

text \<open>
  Modelled from the spec: the error module (\<open>MastraError\<close>, \<open>ErrorDomain\<close>,
  \<open>ErrorCategory\<close>) is imported by the source and not part of it; an error is its
  id, domain, category and message.
\<close>

datatype error_domain = AGENT | TOOL | LLM

datatype error_category = USER | SYSTEM | THIRD_PARTY | UNKNOWN

record mastra_error =
  err_id :: string
  err_domain :: error_domain
  err_category :: error_category
  err_text :: string

text \<open>\<open>Array.prototype.findIndex\<close>; \<open>None\<close> is the result \<open>-1\<close>.\<close>

fun findIndex :: "('a \<Rightarrow> bool) \<Rightarrow> 'a list \<Rightarrow> nat option" where
  "findIndex P [] = None"
| "findIndex P (x # xs) = (if P x then Some 0 else map_option Suc (findIndex P xs))"

text \<open>\<open>result.splice(i, 0, x)\<close>: insert \<open>x\<close> at index \<open>i\<close>, deleting nothing.\<close>

definition splice_insert :: "nat \<Rightarrow> 'a \<Rightarrow> 'a list \<Rightarrow> 'a list" where
  "splice_insert i x xs = take i xs @ [x] @ drop i xs"

definition noMessagesError :: mastra_error where
  "noMessagesError =
     \<lparr> err_id = ''NO_USER_OR_ASSISTANT_MESSAGES'',
       err_domain = AGENT,
       err_category = USER,
       err_text = ''This request does not contain any user or assistant messages. At least one user or assistant message is required to generate a response.'' \<rparr>"

definition syntheticUserMessage :: model_message where
  "syntheticUserMessage = \<lparr> m_role = User, m_content = TextContent ''.'' \<rparr>"

definition ensureGeminiCompatibleMessages :: "model_message list \<Rightarrow> mastra_error + model_message list" where
  "ensureGeminiCompatibleMessages messages =
     (let result = messages in
      case findIndex (\<lambda>m. m_role m \<noteq> System) result of
        None \<Rightarrow> Inl noMessagesError
      | Some firstNonSystemIndex \<Rightarrow>
          if m_role (result ! firstNonSystemIndex) = Assistant
          then Inr (splice_insert firstNonSystemIndex syntheticUserMessage result)
          else Inr result)"

text \<open>
  Index \<open>i\<close> holds the first non-system message: every message before it has role
  \<open>system\<close>, and the one at \<open>i\<close> has not.
\<close>

definition isFirstNonSystem :: "model_message list \<Rightarrow> nat \<Rightarrow> bool" where
  "isFirstNonSystem messages i \<longleftrightarrow>
     i < length messages \<and> m_role (messages ! i) \<noteq> System \<and>
     (\<forall>j < i. m_role (messages ! j) = System)"

subsection \<open>Anthropic\<close>

text \<open>\<open>xs.map(f)\<close> where \<open>f\<close> may throw: the first exception ends the map.\<close>

fun map_throwing :: "('a \<Rightarrow> 'e + 'b) \<Rightarrow> 'a list \<Rightarrow> 'e + 'b list" where
  "map_throwing f [] = Inr []"
| "map_throwing f (x # xs) =
     (case f x of
        Inl e \<Rightarrow> Inl e
      | Inr y \<Rightarrow> (case map_throwing f xs of Inl e \<Rightarrow> Inl e | Inr ys \<Rightarrow> Inr (y # ys)))"

definition enrichPart :: "db_message list \<Rightarrow> model_part \<Rightarrow> js_error + model_part" where
  "enrichPart dbMessages part =
     (case part of
        ToolResultPart tr \<Rightarrow>
          (case findToolCallArgs dbMessages (tr_toolCallId tr) of
             Inl e \<Rightarrow> Inl e
           | Inr input \<Rightarrow> Inr (ToolResultPart (tr\<lparr> tr_input := Some input \<rparr>)))
      | _ \<Rightarrow> Inr part)"

definition enrichToolResultsWithInput :: "model_message \<Rightarrow> db_message list \<Rightarrow> js_error + model_message" where
  "enrichToolResultsWithInput message dbMessages =
     (case m_content message of
        TextContent s \<Rightarrow> Inr message
      | PartsContent ps \<Rightarrow>
          if m_role message \<noteq> Tool then Inr message
          else
            (case map_throwing (enrichPart dbMessages) ps of
               Inl e \<Rightarrow> Inl e
             | Inr ps' \<Rightarrow> Inr (message\<lparr> m_content := PartsContent ps' \<rparr>)))"

definition ensureAnthropicCompatibleMessages :: "model_message list \<Rightarrow> db_message list \<Rightarrow> js_error + model_message list" where
  "ensureAnthropicCompatibleMessages messages dbMessages =
     map_throwing (\<lambda>msg. enrichToolResultsWithInput msg dbMessages) messages"

text \<open>
  The enrichment as the specification words it: a tool-result part gets as \<open>input\<close>
  the args reconciled for its toolCallId; every other part, and every message that is
  not a tool-role message with a parts array, stays as it is.
\<close>

definition withReconciledInput :: "db_message list \<Rightarrow> model_part \<Rightarrow> model_part" where
  "withReconciledInput dbMessages part =
     (case part of
        ToolResultPart tr \<Rightarrow>
          ToolResultPart (tr\<lparr> tr_input := Some (findArgs_spec dbMessages (tr_toolCallId tr)) \<rparr>)
      | _ \<Rightarrow> part)"

definition isToolResultPart :: "model_part \<Rightarrow> bool" where
  "isToolResultPart part = (case part of ToolResultPart tr \<Rightarrow> True | _ \<Rightarrow> False)"

definition partsOf :: "model_message \<Rightarrow> model_part list option" where
  "partsOf message = (case m_content message of PartsContent ps \<Rightarrow> Some ps | TextContent s \<Rightarrow> None)"

section \<open>The tool call step\<close>

subsection \<open>Messages of the message list and their approval metadata\<close>

text \<open>
  The value stored under \<open>metadata.pendingToolApprovals[toolCallId]\<close>:
  \<open>{ toolName, args, type: 'approval', runId }\<close>.
\<close>

record pending_approval =
  pa_toolName :: string
  pa_args :: json
  pa_type :: string
  pa_runId :: string

text \<open>
  The object under \<open>metadata.pendingToolApprovals\<close>, a plain object keyed by
  toolCallId: its own keys in insertion order, and its prototype. The prototype is
  \<open>Object.prototype\<close> (\<open>None\<close>) unless an assignment to \<open>__proto__\<close> has replaced it by
  an approval record, whose prototype is \<open>Object.prototype\<close> in turn.
\<close>

record approval_map =
  ownRecords :: "(string \<times> pending_approval) list"
  prototypeRecord :: "pending_approval option"

text \<open>The object literal \<open>{}\<close>.\<close>

definition emptyObject :: approval_map where
  "emptyObject = \<lparr> ownRecords = [], prototypeRecord = None \<rparr>"

text \<open>The own properties of an approval record \<open>{ toolName, args, type, runId }\<close>.\<close>

definition recordProperty :: "pending_approval \<Rightarrow> string \<Rightarrow> json option" where
  "recordProperty rec k =
     (if k = ''toolName'' then Some (JStr (pa_toolName rec))
      else if k = ''args'' then Some (pa_args rec)
      else if k = ''type'' then Some (JStr (pa_type rec))
      else if k = ''runId'' then Some (JStr (pa_runId rec))
      else None)"

text \<open>
  \<open>!!obj[k]\<close>: an own record is an object, so truthy; otherwise the read goes up the
  prototype chain, first to a record that replaced the prototype, then to
  \<open>Object.prototype\<close>, whose members are all truthy; a name found nowhere reads
  \<open>undefined\<close>.
\<close>

definition readsTruthy :: "approval_map \<Rightarrow> string \<Rightarrow> bool" where
  "readsTruthy obj k =
     (case map_of (ownRecords obj) k of
        Some rec \<Rightarrow> True
      | None \<Rightarrow>
          (case (case prototypeRecord obj of None \<Rightarrow> None | Some proto \<Rightarrow> recordProperty proto k) of
             Some v \<Rightarrow> truthy v
           | None \<Rightarrow> k \<in> set objectPrototypeNames))"

text \<open>
  \<open>obj[k] = rec\<close>: an own key is overwritten in place; a new key is appended, except
  that \<open>__proto__\<close>, when it is not an own key, reaches the accessor of
  \<open>Object.prototype\<close>, which makes \<open>rec\<close> the prototype and adds no key.
\<close>

definition assignProperty :: "string \<Rightarrow> pending_approval \<Rightarrow> approval_map \<Rightarrow> approval_map" where
  "assignProperty k rec obj =
     (if k = ''__proto__'' \<and> map_of (ownRecords obj) k = None
      then obj\<lparr> prototypeRecord := Some rec \<rparr>
      else obj\<lparr> ownRecords := AList.update k rec (ownRecords obj) \<rparr>)"

text \<open>\<open>delete obj[k]\<close> removes an own key and nothing else.\<close>

definition deleteProperty :: "string \<Rightarrow> approval_map \<Rightarrow> approval_map" where
  "deleteProperty k obj = obj\<lparr> ownRecords := AList.delete k (ownRecords obj) \<rparr>"

text \<open>
  \<open>content.metadata\<close> is a \<open>Record<string, any>\<close> in the source. The model types the one
  key the step reads and writes and keeps the rest as they are. \<open>None\<close> for
  \<open>pendingToolApprovals\<close> is an absent (or falsy) key.
\<close>

record message_metadata =
  pendingToolApprovals :: "approval_map option"
  otherMetadata :: "(string \<times> json) list"

text \<open>
  A \<open>MastraMessageV2\<close>. \<open>v2_content = None\<close> is a falsy \<open>content\<close> (both helpers
  guard against it); \<open>c_metadata = None\<close> is a \<open>metadata\<close> that is not an object
  (\<open>typeof content.metadata === 'object' && content.metadata !== null\<close> fails).
\<close>

record v2_content =
  c_parts :: "ui_part list"
  c_metadata :: "message_metadata option"

record message_v2 =
  v2_id :: string
  v2_role :: role
  v2_content :: "v2_content option"

text \<open>
  Modelled from the spec: the message list (\<open>MessageList\<close>) is imported by the source
  and not part of it. The specification gives it filtered views: all persisted
  messages and the response-only messages. It is modelled as the list of its messages
  in order, each tagged with where it came from. A view returns the message objects
  themselves, so a write through a view is a write to the list: a view entry carries
  the position of its message in the list as the reference.
\<close>

datatype message_source = FromMemory | FromInput | FromResponse

type_synonym message_list = "(message_source \<times> message_v2) list"

definition get_all_v2 :: "message_list \<Rightarrow> (nat \<times> message_v2) list" where
  "get_all_v2 ml = map (\<lambda>(r, (src, msg)). (r, msg)) (enumerate 0 ml)"

definition get_response_v2 :: "message_list \<Rightarrow> (nat \<times> message_v2) list" where
  "get_response_v2 ml =
     map (\<lambda>(r, (src, msg)). (r, msg)) (filter (\<lambda>(r, (src, msg)). src = FromResponse) (enumerate 0 ml))"

text \<open>Writing the object behind reference \<open>r\<close>.\<close>

definition write_message :: "message_list \<Rightarrow> nat \<Rightarrow> message_v2 \<Rightarrow> message_list" where
  "write_message ml r msg = ml[r := (fst (ml ! r), msg)]"

definition emptyMetadata :: message_metadata where
  "emptyMetadata = \<lparr> pendingToolApprovals = None, otherMetadata = [] \<rparr>"

text \<open>
  \<open>addToolApprovalMetadata\<close>: the helper closes over \<open>messageList\<close> and \<open>runId\<close>, which
  are parameters here; the updated message list is returned.
\<close>

definition addToolApprovalMetadata ::
  "string \<Rightarrow> message_list \<Rightarrow> string \<Rightarrow> string \<Rightarrow> json \<Rightarrow> message_list" where
  "addToolApprovalMetadata runId ml toolCallId toolName args =
     (let responseMessages = get_response_v2 ml in
      case find (\<lambda>(r, msg). v2_role msg = Assistant) (rev responseMessages) of
        None \<Rightarrow> ml
      | Some (r, lastAssistantMessage) \<Rightarrow>
          (case v2_content lastAssistantMessage of
             None \<Rightarrow> ml
           | Some content \<Rightarrow>
               (let metadata = (case c_metadata content of Some md \<Rightarrow> md | None \<Rightarrow> emptyMetadata);
                    pending = (case pendingToolApprovals metadata of Some p \<Rightarrow> p | None \<Rightarrow> emptyObject);
                    pending' = assignProperty toolCallId
                       \<lparr> pa_toolName = toolName, pa_args = args, pa_type = ''approval'', pa_runId = runId \<rparr>
                       pending;
                    metadata' = metadata\<lparr> pendingToolApprovals := Some pending' \<rparr>
                in write_message ml r
                     (lastAssistantMessage\<lparr> v2_content := Some (content\<lparr> c_metadata := Some metadata' \<rparr>) \<rparr>))))"

subsection \<open>The collaborators of a run\<close>

text \<open>
  Modelled from the spec: the save-queue manager, the memory store, the tracer, the
  stream controller and the workflow's \<open>suspend\<close> are collaborators the source calls
  and does not contain. Each is modelled at its interface: what the step calls is
  appended to a log in the state, and whether a call rejects is a parameter of the
  collaborator.
\<close>

record save_queue_manager =
  flushRejects :: bool

record memory_store =
  hasGetThreadById :: bool
  getThreadByIdRejects :: bool
  hasCreateThread :: bool
  createThreadRejects :: bool

record internal =
  saveQueueManager :: "save_queue_manager option"
  memoryConfig :: json
  threadId :: "string option"
  resourceId :: "string option"
  memory :: "memory_store option"

text \<open>Truthiness of an optional string: \<open>undefined\<close> and \<open>''\<close> are falsy.\<close>

definition truthy_string :: "string option \<Rightarrow> bool" where
  "truthy_string s = (case s of None \<Rightarrow> False | Some v \<Rightarrow> v \<noteq> [])"

datatype chunk_from = ChunkFromAgent | ChunkFromUser | ChunkFromSystem | ChunkFromWorkflow

record chunk =
  chunk_type :: string
  chunk_runId :: string
  chunk_from :: chunk_from
  chunk_payload :: json

datatype attr_value = AttrString string | AttrBool bool | JSON_stringify json

datatype span_op =
    StartSpan string
  | SetAttributes "(string \<times> attr_value) list"
  | SetStatus nat json
  | RecordException json
  | EndSpan

record suspend_call =
  suspendPayload :: json
  resumeLabel :: string

type_synonym handle = nat

record hook_input =
  hook_toolCallId :: string
  hook_input :: json
  hook_messages :: "model_message list"
  hook_abortSignal :: "handle option"

text \<open>
  \<open>MastraToolInvocationOptions\<close> without the \<open>suspend\<close> closure, which is not data:
  the calls a tool makes to it are part of the tool's \<open>execution\<close> below.
\<close>

record tool_options =
  opt_abortSignal :: "handle option"
  opt_toolCallId :: string
  opt_messages :: "model_message list"
  opt_writableStream :: handle
  opt_tracingContext :: "handle option"
  opt_resumeData :: json

text \<open>
  What one call of a tool's \<open>execute\<close> does, as far as the step can see: the payloads
  it passes to the injected \<open>suspend\<close>, in order, and then its return value or the
  value it throws.
\<close>

datatype execution_outcome = Returns json | Throws json

record execution =
  suspendPayloads :: "json list"
  outcome :: execution_outcome

text \<open>
  A tool definition. \<open>tool_id = None\<close>: the tool has no \<open>id\<close> key. The hook returns
  the value it throws, if it throws. \<open>execute = None\<close>: a tool without an execute
  routine.
\<close>

record tool =
  tool_id :: "string option"
  onInputAvailable :: "(hook_input \<Rightarrow> json option) option"
  execute :: "(json \<Rightarrow> tool_options \<Rightarrow> execution) option"
  requireApproval :: bool

text \<open>
  The parameters of \<open>createToolCallStep\<close> (\<open>OuterLLMRun\<close>) that the step body reads.
  \<open>tools\<close> is the tool mapping in key order; \<open>operationNameAttributes\<close> is what
  \<open>assembleOperationName\<close> returns for the span; \<open>streamState\<close> is what
  \<open>streamState.serialize()\<close> returns; \<open>tracingContext\<close> is
  \<open>modelSpanTracker?.getTracingContext()\<close>; \<open>inputModelMessages\<close> is the view
  \<open>messageList.get.input.aiV5.model()\<close>.
\<close>

record run =
  tools :: "(string \<times> tool) list option"
  abortSignal :: "handle option"
  operationNameAttributes :: "(string \<times> attr_value) list"
  writer :: handle
  runId :: string
  streamState :: json
  tracingContext :: "handle option"
  internals :: "internal option"
  inputModelMessages :: "message_list \<Rightarrow> model_message list"

text \<open>
  Everything the step can change: the message list, the chunks enqueued on the
  controller, the operations on telemetry spans, the calls of the workflow's
  \<open>suspend\<close>, the flushes that went through (thread id and the list flushed), the
  threads of the memory store, the flag \<open>_internal.threadExists\<close>, the console, and the
  calls of the tool's hook and execute routine.
\<close>

record run_state =
  messageList :: message_list
  enqueued :: "chunk list"
  spanOps :: "span_op list"
  suspendCalls :: "suspend_call list"
  flushed :: "(string \<times> message_list) list"
  threads :: "string list"
  threadExists :: bool
  consoleErrors :: "string list"
  hookCalls :: "hook_input list"
  executeCalls :: "(json \<times> tool_options) list"

subsection \<open>Removing approval metadata and flushing\<close>

definition getMetadata :: "message_v2 \<Rightarrow> message_metadata option" where
  "getMetadata message =
     (case v2_content message of None \<Rightarrow> None | Some content \<Rightarrow> c_metadata content)"

text \<open>
  The test of the search, \<open>!!pendingToolApprovals?.[toolCallId]\<close>: it holds of a message
  whose approval map reads truthy under the toolCallId, by an own record or by a name
  the map inherits.
\<close>

definition holdsApproval :: "string \<Rightarrow> message_v2 \<Rightarrow> bool" where
  "holdsApproval toolCallId msg =
     (case getMetadata msg of
        None \<Rightarrow> False
      | Some metadata \<Rightarrow>
          (case pendingToolApprovals metadata of
             None \<Rightarrow> False
           | Some pending \<Rightarrow> readsTruthy pending toolCallId))"

text \<open>
  \<open>saveQueueManager.flushMessages(messageList, threadId, memoryConfig)\<close> inside
  \<open>try\<close>/\<open>catch\<close>: a rejection is logged under the given message and swallowed.
\<close>

definition flushMessages :: "save_queue_manager \<Rightarrow> string \<Rightarrow> string \<Rightarrow> run_state \<Rightarrow> run_state" where
  "flushMessages sqm tid logMessage st =
     (if flushRejects sqm then st\<lparr> consoleErrors := consoleErrors st @ [logMessage] \<rparr>
      else st\<lparr> flushed := flushed st @ [(tid, messageList st)] \<rparr>)"

definition removeToolApprovalMetadata :: "internal option \<Rightarrow> string \<Rightarrow> run_state \<Rightarrow> run_state" where
  "removeToolApprovalMetadata internal_opt toolCallId st =
     (case internal_opt of
        None \<Rightarrow> st
      | Some intl \<Rightarrow>
          (case saveQueueManager intl of
             None \<Rightarrow> st
           | Some sqm \<Rightarrow>
               if \<not> truthy_string (threadId intl) then st
               else
                 (let allMessages = get_all_v2 (messageList st) in
                  case find (\<lambda>(r, msg). holdsApproval toolCallId msg) (rev allMessages) of
                    None \<Rightarrow> st
                  | Some (r, lastAssistantMessage) \<Rightarrow>
                      (case v2_content lastAssistantMessage of
                         None \<Rightarrow> st
                       | Some content \<Rightarrow>
                           (case c_metadata content of
                              None \<Rightarrow> st
                            | Some metadata \<Rightarrow>
                                (case pendingToolApprovals metadata of
                                   None \<Rightarrow> st
                                 | Some pending \<Rightarrow>
                                     (let pending' = deleteProperty toolCallId pending;
                                          metadata' =
                                            (if length (map fst (ownRecords pending')) = 0
                                             then metadata\<lparr> pendingToolApprovals := None \<rparr>
                                             else metadata\<lparr> pendingToolApprovals := Some pending' \<rparr>);
                                          st' = st\<lparr> messageList := write_message (messageList st) r
                                                  (lastAssistantMessage\<lparr> v2_content :=
                                                     Some (content\<lparr> c_metadata := Some metadata' \<rparr>) \<rparr>) \<rparr>
                                      in flushMessages sqm (the (threadId intl))
                                           ''Error removing tool approval metadata:'' st')))))))"

text \<open>
  The thread check of \<open>flushMessagesBeforeSuspension\<close>. The first component is
  \<open>True\<close> when a call rejected, which takes the helper to its \<open>catch\<close>.
\<close>

definition ensureThreadExists :: "internal \<Rightarrow> string \<Rightarrow> run_state \<Rightarrow> bool \<times> run_state" where
  "ensureThreadExists intl tid st =
     (case memory intl of
        None \<Rightarrow> (False, st)
      | Some mem \<Rightarrow>
          if threadExists st \<or> \<not> truthy_string (resourceId intl) then (False, st)
          else if hasGetThreadById mem \<and> getThreadByIdRejects mem then (True, st)
          else if hasGetThreadById mem \<and> tid \<in> set (threads st)
            then (False, st\<lparr> threadExists := True \<rparr>)
          else if \<not> hasCreateThread mem then (False, st\<lparr> threadExists := True \<rparr>)
          else if createThreadRejects mem then (True, st)
          else (False, st\<lparr> threads := threads st @ [tid], threadExists := True \<rparr>))"

definition flushMessagesBeforeSuspension :: "internal option \<Rightarrow> run_state \<Rightarrow> run_state" where
  "flushMessagesBeforeSuspension internal_opt st =
     (case internal_opt of
        None \<Rightarrow> st
      | Some intl \<Rightarrow>
          (case saveQueueManager intl of
             None \<Rightarrow> st
           | Some sqm \<Rightarrow>
               if \<not> truthy_string (threadId intl) then st
               else
                 (case ensureThreadExists intl (the (threadId intl)) st of
                    (True, st') \<Rightarrow>
                      st'\<lparr> consoleErrors := consoleErrors st' @ [''Error flushing messages before suspension:''] \<rparr>
                  | (False, st') \<Rightarrow>
                      flushMessages sqm (the (threadId intl))
                        ''Error flushing messages before suspension:'' st')))"

subsection \<open>The step\<close>

text \<open>
  Modelled from the spec: the step's schemas (\<open>toolCallInputSchema\<close>,
  \<open>toolCallOutputSchema\<close>) are imported by the source and not part of it. The
  specification gives the input as \<open>{toolCallId, toolName, args, providerExecuted, output?}\<close>
  and the output as the request with a \<open>result\<close> or an \<open>error\<close>. An absent \<open>output\<close> is
  \<open>JUndefined\<close> (the field is \<open>output'\<close>: \<open>output\<close> is reserved); an absent \<open>result\<close> or \<open>error\<close> key is \<open>None\<close>.
\<close>

record tool_call_input =
  toolCallId :: string
  toolName :: string
  args :: json
  providerExecuted :: bool
  output' :: json

record tool_call_output =
  request :: tool_call_input
  result :: "json option"
  error :: "json option"

text \<open>
  What \<open>execute\<close> of the step receives: \<open>inputData\<close>, \<open>resumeData\<close> (\<open>JUndefined\<close> on a
  first run) and the runtime context, a keyed lookup.
\<close>

record step_params =
  inputData :: tool_call_input
  resumeData :: json
  runtimeContext :: "(string \<times> json) list"

definition runtimeContext_get :: "(string \<times> json) list \<Rightarrow> string \<Rightarrow> json" where
  "runtimeContext_get ctx k = (case map_of ctx k of Some v \<Rightarrow> v | None \<Rightarrow> JUndefined)"

text \<open>
  The step returns an output, or what the workflow's \<open>suspend\<close> returned
  (\<open>return suspend(...)\<close>).
\<close>

datatype step_result = StepOutput tool_call_output | StepSuspended

text \<open>
  What \<open>tools[toolName]\<close> yields for a name that is not an own key of the tool mapping
  and that the mapping inherits from \<open>Object.prototype\<close>: a function of the prototype
  (the prototype itself under \<open>__proto__\<close>). The step reads three things of the value it
  resolved: whether it is truthy (it is), whether it has an \<open>onInputAvailable\<close> key (it
  has not) and its \<open>execute\<close> property (it has none).
\<close>

definition inheritedMember :: tool where
  "inheritedMember =
     \<lparr> tool_id = None, onInputAvailable = None, execute = None, requireApproval = False \<rparr>"

text \<open>
  \<open>tools[toolName]\<close> on the tool mapping, a plain object given by its own keys in key
  order: the tool under the own key, else what the mapping inherits under the name.
\<close>

definition readTool :: "(string \<times> tool) list \<Rightarrow> string \<Rightarrow> tool option" where
  "readTool ts name =
     (case map_of ts name of
        Some t \<Rightarrow> Some t
      | None \<Rightarrow> if name \<in> set objectPrototypeNames then Some inheritedMember else None)"

text \<open>
  \<open>tools?.[toolName] || Object.values(tools || {})?.find(tool => 'id' in tool && tool.id === toolName)\<close>;
  \<open>None\<close> is an undefined \<open>tools\<close>. \<open>Object.values\<close> lists the values of the own keys.
\<close>

definition resolveTool :: "(string \<times> tool) list option \<Rightarrow> string \<Rightarrow> tool option" where
  "resolveTool tools_opt name =
     (case (case tools_opt of None \<Rightarrow> None | Some ts \<Rightarrow> readTool ts name) of
        Some t \<Rightarrow> Some t
      | None \<Rightarrow>
          find (\<lambda>t. tool_id t = Some name)
            (map snd (case tools_opt of None \<Rightarrow> [] | Some ts \<Rightarrow> ts)))"

definition toolCallSpanAttributes :: "run \<Rightarrow> tool_call_input \<Rightarrow> (string \<times> attr_value) list" where
  "toolCallSpanAttributes r inp =
     operationNameAttributes r @
     [(''stream.toolCall.toolName'', AttrString (toolName inp)),
      (''stream.toolCall.toolCallId'', AttrString (toolCallId inp)),
      (''stream.toolCall.args'', JSON_stringify (args inp))]"

text \<open>The branch \<open>if (inputData.providerExecuted)\<close>.\<close>

definition providerExecutedStep :: "run \<Rightarrow> tool_call_input \<Rightarrow> run_state \<Rightarrow> step_result \<times> run_state" where
  "providerExecutedStep r inp st =
     (let st1 = st\<lparr> spanOps := spanOps st @
                  [StartSpan ''mastra.stream.toolCall'',
                   SetAttributes (toolCallSpanAttributes r inp @
                     [(''stream.toolCall.providerExecuted'', AttrBool True)])] \<rparr>;
          st2 = (if truthy (output' inp)
                 then st1\<lparr> spanOps := spanOps st1 @
                        [SetAttributes [(''stream.toolCall.result'', JSON_stringify (output' inp))]] \<rparr>
                 else st1);
          st3 = st2\<lparr> spanOps := spanOps st2 @ [EndSpan] \<rparr>
      in (StepOutput \<lparr> request = inp, result = Some (output' inp), error = None \<rparr>, st3))"

text \<open>The hook call: \<open>if (tool && 'onInputAvailable' in tool) { try { ... } catch { console.error } }\<close>.\<close>

definition callOnInputAvailable :: "run \<Rightarrow> tool \<Rightarrow> tool_call_input \<Rightarrow> run_state \<Rightarrow> run_state" where
  "callOnInputAvailable r t inp st =
     (case onInputAvailable t of
        None \<Rightarrow> st
      | Some hook \<Rightarrow>
          (let hi = \<lparr> hook_toolCallId = toolCallId inp, hook_input = args inp,
                      hook_messages = inputModelMessages r (messageList st),
                      hook_abortSignal = abortSignal r \<rparr>;
               st1 = st\<lparr> hookCalls := hookCalls st @ [hi] \<rparr>
           in case hook hi of
                None \<Rightarrow> st1
              | Some err \<Rightarrow> st1\<lparr> consoleErrors := consoleErrors st1 @ [''Error calling onInputAvailable''] \<rparr>))"

definition approvalChunk :: "run \<Rightarrow> tool_call_input \<Rightarrow> chunk" where
  "approvalChunk r inp =
     \<lparr> chunk_type = ''tool-call-approval'', chunk_runId = runId r, chunk_from = ChunkFromAgent,
       chunk_payload = JObj [(''toolCallId'', JStr (toolCallId inp)),
                             (''toolName'', JStr (toolName inp)),
                             (''args'', args inp)] \<rparr>"

definition approvalSuspendCall :: "run \<Rightarrow> tool_call_input \<Rightarrow> suspend_call" where
  "approvalSuspendCall r inp =
     \<lparr> suspendPayload = JObj
         [(''requireToolApproval'', JObj [(''toolCallId'', JStr (toolCallId inp)),
                                          (''toolName'', JStr (toolName inp)),
                                          (''args'', args inp)]),
          (''__streamState'', streamState r)],
       resumeLabel = toolCallId inp \<rparr>"

text \<open>The \<open>suspend\<close> closure handed to the tool, called with one payload.\<close>

definition toolSuspend :: "run \<Rightarrow> tool_call_input \<Rightarrow> json \<Rightarrow> run_state \<Rightarrow> run_state" where
  "toolSuspend r inp payload st =
     (let st1 = st\<lparr> enqueued := enqueued st @
                  [\<lparr> chunk_type = ''tool-call-suspended'', chunk_runId = runId r,
                     chunk_from = ChunkFromAgent,
                     chunk_payload = JObj [(''toolCallId'', JStr (toolCallId inp)),
                                           (''toolName'', JStr (toolName inp)),
                                           (''suspendPayload'', payload)] \<rparr>] \<rparr>;
          st2 = flushMessagesBeforeSuspension (internals r) st1
      in st2\<lparr> suspendCalls := suspendCalls st2 @
            [\<lparr> suspendPayload = JObj [(''toolCallSuspended'', payload),
                                      (''__streamState'', streamState r)],
               resumeLabel = toolCallId inp \<rparr>] \<rparr>)"

definition toolOptionsOf :: "run \<Rightarrow> step_params \<Rightarrow> run_state \<Rightarrow> tool_options" where
  "toolOptionsOf r params st =
     \<lparr> opt_abortSignal = abortSignal r,
       opt_toolCallId = toolCallId (inputData params),
       opt_messages = inputModelMessages r (messageList st),
       opt_writableStream = writer r,
       opt_tracingContext = tracingContext r,
       opt_resumeData = resumeData params \<rparr>"

text \<open>
  From \<open>const toolOptions = ...\<close> to \<open>return { result, ...inputData }\<close>, inside the
  \<open>try\<close>. \<open>Inl e\<close>: the tool threw \<open>e\<close>, which leaves the \<open>try\<close> block.
\<close>

definition invokeExecute ::
  "run \<Rightarrow> (json \<Rightarrow> tool_options \<Rightarrow> execution) \<Rightarrow> step_params \<Rightarrow> run_state \<Rightarrow> (json + step_result) \<times> run_state" where
  "invokeExecute r exec params st =
     (let inp = inputData params;
          toolOptions = toolOptionsOf r params st;
          st1 = st\<lparr> executeCalls := executeCalls st @ [(args inp, toolOptions)] \<rparr>;
          ex = exec (args inp) toolOptions;
          st2 = fold (toolSuspend r inp) (suspendPayloads ex) st1
      in case outcome ex of
           Throws e \<Rightarrow> (Inl e, st2)
         | Returns res \<Rightarrow>
             (Inr (StepOutput \<lparr> request = inp, result = Some res, error = None \<rparr>),
              st2\<lparr> spanOps := spanOps st2 @
                     [SetAttributes [(''stream.toolCall.result'', JSON_stringify res)], EndSpan] \<rparr>))"

definition approvalRequired :: "tool \<Rightarrow> step_params \<Rightarrow> bool" where
  "approvalRequired t params \<longleftrightarrow>
     truthy (runtimeContext_get (runtimeContext params) ''__mastra_requireToolApproval'')
     \<or> requireApproval t"

definition notApprovedText :: string where
  "notApprovedText = ''Tool call was not approved by the user''"

text \<open>The body of the \<open>try\<close> block.\<close>

definition tryBlock ::
  "run \<Rightarrow> tool \<Rightarrow> (json \<Rightarrow> tool_options \<Rightarrow> execution) \<Rightarrow> step_params \<Rightarrow> run_state \<Rightarrow> (json + step_result) \<times> run_state" where
  "tryBlock r t exec params st =
     (let inp = inputData params in
      if approvalRequired t params then
        if \<not> truthy (resumeData params) then
          (let st1 = st\<lparr> enqueued := enqueued st @ [approvalChunk r inp] \<rparr>;
               st2 = st1\<lparr> messageList := addToolApprovalMetadata (runId r) (messageList st1)
                                            (toolCallId inp) (toolName inp) (args inp) \<rparr>;
               st3 = flushMessagesBeforeSuspension (internals r) st2;
               st4 = st3\<lparr> suspendCalls := suspendCalls st3 @ [approvalSuspendCall r inp] \<rparr>
           in (Inr StepSuspended, st4))
        else
          (let st1 = removeToolApprovalMetadata (internals r) (toolCallId inp) st in
           if \<not> truthy (get_prop (resumeData params) ''approved'') then
             (Inr (StepOutput \<lparr> request = inp, result = Some (JStr notApprovedText), error = None \<rparr>),
              st1\<lparr> spanOps := spanOps st1 @
                     [EndSpan, SetAttributes [(''stream.toolCall.result'', AttrString notApprovedText)]] \<rparr>)
           else invokeExecute r exec params st1)
      else invokeExecute r exec params st)"

text \<open>\<open>(error as Error)?.message ?? error\<close>\<close>

definition errorMessage :: "json \<Rightarrow> json" where
  "errorMessage e =
     (let m = (case e of JUndefined \<Rightarrow> JUndefined | JNull \<Rightarrow> JUndefined | _ \<Rightarrow> get_prop e ''message'')
      in if m = JUndefined \<or> m = JNull then e else m)"

definition createToolCallStep :: "run \<Rightarrow> step_params \<Rightarrow> run_state \<Rightarrow> step_result \<times> run_state" where
  "createToolCallStep r params st =
     (let inp = inputData params in
      if providerExecuted inp then providerExecutedStep r inp st
      else
        (case resolveTool (tools r) (toolName inp) of
           None \<Rightarrow>
             (StepOutput \<lparr> request = inp,
                           result = Some (JStr (''Tool '' @ toolName inp @ '' not found'')),
                           error = None \<rparr>, st)
         | Some t \<Rightarrow>
             (let st1 = callOnInputAvailable r t inp st in
              case execute t of
                None \<Rightarrow> (StepOutput \<lparr> request = inp, result = None, error = None \<rparr>, st1)
              | Some exec \<Rightarrow>
                  (let st2 = st1\<lparr> spanOps := spanOps st1 @
                               [StartSpan ''mastra.stream.toolCall'',
                                SetAttributes (toolCallSpanAttributes r inp)] \<rparr>
                   in case tryBlock r t exec params st2 of
                        (Inr res, st3) \<Rightarrow> (res, st3)
                      | (Inl err, st3) \<Rightarrow>
                          (StepOutput \<lparr> request = inp, result = None, error = Some err \<rparr>,
                           st3\<lparr> spanOps := spanOps st3 @
                                  [SetStatus 2 (errorMessage err), RecordException err] \<rparr>)))))"

subsection \<open>Vocabulary for the properties of the step\<close>

definition isStartSpan :: "span_op \<Rightarrow> bool" where
  "isStartSpan op = (case op of StartSpan name \<Rightarrow> True | _ \<Rightarrow> False)"

text \<open>
  A tool name is registered when it is a key of the tool mapping or the declared id of
  one of its tools.
\<close>

definition isRegistered :: "(string \<times> tool) list option \<Rightarrow> string \<Rightarrow> bool" where
  "isRegistered tools_opt name =
     (case tools_opt of
        None \<Rightarrow> False
      | Some ts \<Rightarrow> name \<in> set (map fst ts) \<or> Some name \<in> set (map (\<lambda>(k, t). tool_id t) ts))"

text \<open>
  A name the tool mapping inherits: the run has a tool mapping, the name is not one of
  its keys, and \<open>Object.prototype\<close> has a property of that name.
\<close>

definition isInheritedName :: "(string \<times> tool) list option \<Rightarrow> string \<Rightarrow> bool" where
  "isInheritedName tools_opt name =
     (case tools_opt of
        None \<Rightarrow> False
      | Some ts \<Rightarrow> name \<notin> set (map fst ts) \<and> name \<in> set objectPrototypeNames)"

text \<open>
  Position \<open>k\<close> holds the most recent assistant message of the in-flight response:
  a response message with role assistant, with no such message after it.
\<close>

definition isLastAssistantResponse :: "message_list \<Rightarrow> nat \<Rightarrow> bool" where
  "isLastAssistantResponse ml k \<longleftrightarrow>
     k < length ml \<and> fst (ml ! k) = FromResponse \<and> v2_role (snd (ml ! k)) = Assistant \<and>
     (\<forall>j. k < j \<and> j < length ml \<longrightarrow>
        \<not> (fst (ml ! j) = FromResponse \<and> v2_role (snd (ml ! j)) = Assistant))"

text \<open>
  Position \<open>k\<close> holds the message the search of \<open>removeToolApprovalMetadata\<close> finds:
  the most recent message, of all messages, that passes its test.
\<close>

definition isFoundHolder :: "string \<Rightarrow> message_list \<Rightarrow> nat \<Rightarrow> bool" where
  "isFoundHolder cid ml k \<longleftrightarrow>
     k < length ml \<and> holdsApproval cid (snd (ml ! k)) \<and>
     (\<forall>j. k < j \<and> j < length ml \<longrightarrow> \<not> holdsApproval cid (snd (ml ! j)))"

text \<open>
  The \<open>pendingToolApprovals\<close> key of a message's metadata (\<open>None\<close>: no such key), and
  the approval records of a message: the own keys of its approval map, with their
  records (none when the key is absent).
\<close>

definition approvalsKey :: "message_v2 \<Rightarrow> approval_map option" where
  "approvalsKey msg =
     (case getMetadata msg of None \<Rightarrow> None | Some metadata \<Rightarrow> pendingToolApprovals metadata)"

definition pendingOf :: "message_v2 \<Rightarrow> (string \<times> pending_approval) list" where
  "pendingOf msg = (case approvalsKey msg of None \<Rightarrow> [] | Some obj \<Rightarrow> ownRecords obj)"

text \<open>
  A message holds a record for a toolCallId when the id is among its approval records.
  Position \<open>k\<close> holds the most recent message, of all messages, that holds a record for
  the toolCallId.
\<close>

definition holdsRecord :: "string \<Rightarrow> message_v2 \<Rightarrow> bool" where
  "holdsRecord cid msg \<longleftrightarrow> map_of (pendingOf msg) cid \<noteq> None"

definition isLastHolder :: "string \<Rightarrow> message_list \<Rightarrow> nat \<Rightarrow> bool" where
  "isLastHolder cid ml k \<longleftrightarrow>
     k < length ml \<and> holdsRecord cid (snd (ml ! k)) \<and>
     (\<forall>j. k < j \<and> j < length ml \<longrightarrow> \<not> holdsRecord cid (snd (ml ! j)))"

text \<open>
  A name an approval map inherits: a property name of \<open>Object.prototype\<close>, or, when a
  record has replaced the prototype of the map, a property name of that record. A name
  is inherited in a message list when the approval map of one of its messages inherits
  it.
\<close>

definition inheritsName :: "approval_map \<Rightarrow> string \<Rightarrow> bool" where
  "inheritsName obj k \<longleftrightarrow>
     k \<in> set objectPrototypeNames
     \<or> (case prototypeRecord obj of None \<Rightarrow> False | Some proto \<Rightarrow> recordProperty proto k \<noteq> None)"

definition nameInherited :: "string \<Rightarrow> message_list \<Rightarrow> bool" where
  "nameInherited cid ml =
     list_ex (\<lambda>(src, msg). case approvalsKey msg of None \<Rightarrow> False | Some obj \<Rightarrow> inheritsName obj cid) ml"

text \<open>
  The invariant of the approval bookkeeping: in every message, the approval map, when
  present, has at most one record per toolCallId and is not empty.
\<close>

definition approvalsWellFormed :: "message_v2 \<Rightarrow> bool" where
  "approvalsWellFormed msg =
     (case approvalsKey msg of
        None \<Rightarrow> True
      | Some obj \<Rightarrow> distinct (map fst (ownRecords obj)) \<and> ownRecords obj \<noteq> [])"

definition approvalsInvariant :: "message_list \<Rightarrow> bool" where
  "approvalsInvariant ml = list_all (\<lambda>(src, msg). approvalsWellFormed msg) ml"

text \<open>
  Approval metadata is only removed when the run has a save-queue manager and a thread
  id (the guard at the head of \<open>removeToolApprovalMetadata\<close>).
\<close>

definition persistenceConfigured :: "internal option \<Rightarrow> bool" where
  "persistenceConfigured internal_opt =
     (case internal_opt of
        None \<Rightarrow> False
      | Some intl \<Rightarrow> saveQueueManager intl \<noteq> None \<and> truthy_string (threadId intl))"

text \<open>
  The record the step stores, and a message with a record written to, or deleted from,
  its approval map (the map is dropped when the deletion empties it).
\<close>

definition approvalRecord :: "string \<Rightarrow> string \<Rightarrow> json \<Rightarrow> pending_approval" where
  "approvalRecord rid name a = \<lparr> pa_toolName = name, pa_args = a, pa_type = ''approval'', pa_runId = rid \<rparr>"

definition attachApproval :: "string \<Rightarrow> pending_approval \<Rightarrow> message_v2 \<Rightarrow> v2_content \<Rightarrow> message_v2" where
  "attachApproval cid rec msg c =
     msg\<lparr> v2_content := Some (c\<lparr> c_metadata := Some
        ((case c_metadata c of Some md \<Rightarrow> md | None \<Rightarrow> emptyMetadata)
           \<lparr> pendingToolApprovals := Some (assignProperty cid rec
                (case pendingToolApprovals (case c_metadata c of Some md \<Rightarrow> md | None \<Rightarrow> emptyMetadata) of
                   Some p \<Rightarrow> p | None \<Rightarrow> emptyObject)) \<rparr>) \<rparr>) \<rparr>"

definition detachApproval :: "string \<Rightarrow> message_v2 \<Rightarrow> message_v2" where
  "detachApproval cid msg =
     (case v2_content msg of
        None \<Rightarrow> msg
      | Some c \<Rightarrow>
          (case c_metadata c of
             None \<Rightarrow> msg
           | Some md \<Rightarrow>
               (case pendingToolApprovals md of
                  None \<Rightarrow> msg
                | Some p \<Rightarrow>
                    msg\<lparr> v2_content := Some (c\<lparr> c_metadata := Some
                       (if ownRecords (deleteProperty cid p) = [] then md\<lparr> pendingToolApprovals := None \<rparr>
                        else md\<lparr> pendingToolApprovals := Some (deleteProperty cid p) \<rparr>) \<rparr>) \<rparr>)))"

section \<open>Example data\<close>

text \<open>
  The two stored messages of the specification's scenario of the split tool call (the
  repository's test has the same shape): the call
  with args \<open>{foo: 'bar'}\<close>, then the result with empty args.
\<close>

definition example_callMessage :: db_message where
  "example_callMessage =
     \<lparr> db_id = ''msg-1'', db_role = Assistant,
       db_content = \<lparr> parts = Some [ToolInvocationPart
           \<lparr> inv_state = Call, inv_toolCallId = ''c1'', inv_toolName = ''test_tool'',
             inv_args = JObj [(''foo'', JStr ''bar'')], inv_result = JUndefined \<rparr>],
         toolInvocations = None \<rparr> \<rparr>"

definition example_resultMessage :: db_message where
  "example_resultMessage =
     \<lparr> db_id = ''msg-2'', db_role = Assistant,
       db_content = \<lparr> parts = Some [ToolInvocationPart
           \<lparr> inv_state = Result, inv_toolCallId = ''c1'', inv_toolName = ''test_tool'',
             inv_args = JObj [], inv_result = JObj [(''success'', JBool True)] \<rparr>],
         toolInvocations = None \<rparr> \<rparr>"

text \<open>
  Further stored messages: the call of another tool call, \<open>c2\<close>; a second result-phase
  message for \<open>c1\<close> whose args are not empty; and a message whose parts hold \<open>c1\<close> twice,
  first with empty args.
\<close>

definition example_otherCallMessage :: db_message where
  "example_otherCallMessage =
     \<lparr> db_id = ''msg-3'', db_role = Assistant,
       db_content = \<lparr> parts = Some [TextPart ''looking it up'', ToolInvocationPart
           \<lparr> inv_state = Call, inv_toolCallId = ''c2'', inv_toolName = ''weather'',
             inv_args = JObj [(''city'', JStr ''Paris'')], inv_result = JUndefined \<rparr>],
         toolInvocations = None \<rparr> \<rparr>"

definition example_lateResultMessage :: db_message where
  "example_lateResultMessage =
     \<lparr> db_id = ''msg-4'', db_role = Assistant,
       db_content = \<lparr> parts = Some [ToolInvocationPart
           \<lparr> inv_state = Result, inv_toolCallId = ''c1'', inv_toolName = ''test_tool'',
             inv_args = JObj [(''other'', JNum 1)], inv_result = JObj [(''success'', JBool True)] \<rparr>],
         toolInvocations = None \<rparr> \<rparr>"

definition example_duplicateMessage :: db_message where
  "example_duplicateMessage =
     \<lparr> db_id = ''msg-5'', db_role = Assistant,
       db_content = \<lparr> parts = Some
           [ToolInvocationPart
              \<lparr> inv_state = Result, inv_toolCallId = ''c1'', inv_toolName = ''test_tool'',
                inv_args = JObj [], inv_result = JObj [(''success'', JBool True)] \<rparr>,
            ToolInvocationPart
              \<lparr> inv_state = Call, inv_toolCallId = ''c1'', inv_toolName = ''test_tool'',
                inv_args = JObj [(''foo'', JStr ''bar'')], inv_result = JUndefined \<rparr>],
         toolInvocations = None \<rparr> \<rparr>"

definition example_toolResult :: tool_result_part where
  "example_toolResult =
     \<lparr> tr_toolCallId = ''c1'', tr_toolName = ''test_tool'',
       tr_output = JObj [(''success'', JBool True)], tr_input = None \<rparr>"

definition example_modelMessages :: "model_message list" where
  "example_modelMessages =
     [\<lparr> m_role = Assistant, m_content = PartsContent
          [ToolCallPart ''c1'' ''test_tool'' (JObj [(''foo'', JStr ''bar'')])] \<rparr>,
      \<lparr> m_role = Tool, m_content = PartsContent [ToolResultPart example_toolResult] \<rparr>]"

definition example_systemMessage :: model_message where
  "example_systemMessage = \<lparr> m_role = System, m_content = TextContent ''be brief'' \<rparr>"

definition example_assistantMessage :: model_message where
  "example_assistantMessage = \<lparr> m_role = Assistant, m_content = TextContent ''hello'' \<rparr>"

definition example_userMessage :: model_message where
  "example_userMessage = \<lparr> m_role = User, m_content = TextContent ''hi'' \<rparr>"

text \<open>
  A run with three tools: \<open>getServerTime\<close> (from the repository's exploration of the
  client tool flow, with an execute routine), a client-side tool without an execute
  routine that declares \<open>requireApproval\<close> and is keyed differently from its id, and a
  tool whose execute routine throws. The state is a message list with a user input and
  the assistant response that holds the tool call.
\<close>

definition example_getServerTime :: tool where
  "example_getServerTime =
     \<lparr> tool_id = Some ''getServerTime'', onInputAvailable = None,
       execute = Some (\<lambda>a opts. \<lparr> suspendPayloads = [],
          outcome = Returns (JObj [(''time'', JStr ''12:00''), (''timezone'', JStr ''UTC'')]) \<rparr>),
       requireApproval = False \<rparr>"

definition example_clientTool :: tool where
  "example_clientTool =
     \<lparr> tool_id = Some ''getUserConfirmation'', onInputAvailable = Some (\<lambda>hi. None),
       execute = None, requireApproval = True \<rparr>"

definition example_failingTool :: tool where
  "example_failingTool =
     \<lparr> tool_id = Some ''failing'', onInputAvailable = None,
       execute = Some (\<lambda>a opts. \<lparr> suspendPayloads = [],
          outcome = Throws (JObj [(''message'', JStr ''boom'')]) \<rparr>),
       requireApproval = False \<rparr>"

definition example_internal :: internal where
  "example_internal =
     \<lparr> saveQueueManager = Some \<lparr> flushRejects = False \<rparr>, memoryConfig = JObj [],
       threadId = Some ''thread-1'', resourceId = Some ''user-1'',
       memory = Some \<lparr> hasGetThreadById = True, getThreadByIdRejects = False,
                       hasCreateThread = True, createThreadRejects = False \<rparr> \<rparr>"

definition example_run :: run where
  "example_run =
     \<lparr> tools = Some [(''getServerTime'', example_getServerTime),
                     (''confirm'', example_clientTool),
                     (''failing'', example_failingTool)],
       abortSignal = None,
       operationNameAttributes = [(''operation.name'', AttrString ''mastra.stream.toolCall'')],
       writer = 0, runId = ''run-1'', streamState = JObj [(''step'', JNum 1)],
       tracingContext = None, internals = Some example_internal,
       inputModelMessages = (\<lambda>ml. []) \<rparr>"

definition example_userV2 :: message_v2 where
  "example_userV2 =
     \<lparr> v2_id = ''msg-u'', v2_role = User,
       v2_content = Some \<lparr> c_parts = [TextPart ''what time is it?''], c_metadata = None \<rparr> \<rparr>"

definition example_assistantV2 :: message_v2 where
  "example_assistantV2 =
     \<lparr> v2_id = ''msg-a'', v2_role = Assistant,
       v2_content = Some \<lparr> c_parts = [ToolInvocationPart
           \<lparr> inv_state = Call, inv_toolCallId = ''c1'', inv_toolName = ''getServerTime'',
             inv_args = JObj [(''timezone'', JStr ''UTC'')], inv_result = JUndefined \<rparr>],
         c_metadata = None \<rparr> \<rparr>"

definition example_state :: run_state where
  "example_state =
     \<lparr> messageList = [(FromInput, example_userV2), (FromResponse, example_assistantV2)],
       enqueued = [], spanOps = [], suspendCalls = [], flushed = [], threads = [],
       threadExists = False, consoleErrors = [], hookCalls = [], executeCalls = [] \<rparr>"

definition example_input :: tool_call_input where
  "example_input =
     \<lparr> toolCallId = ''c1'', toolName = ''getServerTime'',
       args = JObj [(''timezone'', JStr ''UTC'')], providerExecuted = False,
       output' = JUndefined \<rparr>"

definition example_providerInput :: tool_call_input where
  "example_providerInput =
     \<lparr> toolCallId = ''c2'', toolName = ''web_search'',
       args = JObj [(''query'', JStr ''time'')], providerExecuted = True,
       output' = JObj [(''hits'', JNum 3)] \<rparr>"

definition example_policyContext :: "(string \<times> json) list" where
  "example_policyContext = [(''__mastra_requireToolApproval'', JBool True)]"

definition example_unknownInput :: tool_call_input where
  "example_unknownInput =
     \<lparr> toolCallId = ''c3'', toolName = ''getWeather'', args = JObj [], providerExecuted = False,
       output' = JUndefined \<rparr>"

definition example_clientInput :: tool_call_input where
  "example_clientInput =
     \<lparr> toolCallId = ''c4'', toolName = ''getUserConfirmation'', args = JObj [(''name'', JStr ''Ada'')],
       providerExecuted = False, output' = JUndefined \<rparr>"

definition example_failingInput :: tool_call_input where
  "example_failingInput =
     \<lparr> toolCallId = ''c5'', toolName = ''failing'', args = JObj [], providerExecuted = False,
       output' = JUndefined \<rparr>"

definition example_approval :: pending_approval where
  "example_approval =
     \<lparr> pa_toolName = ''getServerTime'', pa_args = JObj [(''timezone'', JStr ''UTC'')],
       pa_type = ''approval'', pa_runId = ''run-1'' \<rparr>"

definition example_pendingAssistantV2 :: message_v2 where
  "example_pendingAssistantV2 =
     \<lparr> v2_id = ''msg-a'', v2_role = Assistant,
       v2_content = Some \<lparr> c_parts = [ToolInvocationPart
           \<lparr> inv_state = Call, inv_toolCallId = ''c1'', inv_toolName = ''getServerTime'',
             inv_args = JObj [(''timezone'', JStr ''UTC'')], inv_result = JUndefined \<rparr>],
         c_metadata = Some \<lparr> pendingToolApprovals =
                                 Some \<lparr> ownRecords = [(''c1'', example_approval)], prototypeRecord = None \<rparr>,
                               otherMetadata = [] \<rparr> \<rparr> \<rparr>"

definition example_pendingState :: run_state where
  "example_pendingState =
     \<lparr> messageList = [(FromMemory, example_userV2), (FromMemory, example_pendingAssistantV2)],
       enqueued = [], spanOps = [], suspendCalls = [], flushed = [], threads = [''thread-1''],
       threadExists = True, consoleErrors = [], hookCalls = [], executeCalls = [] \<rparr>"

definition example_gateParams :: step_params where
  "example_gateParams =
     \<lparr> inputData = example_input, resumeData = JUndefined, runtimeContext = example_policyContext \<rparr>"

definition example_approveParams :: step_params where
  "example_approveParams =
     \<lparr> inputData = example_input, resumeData = JObj [(''approved'', JBool True)],
       runtimeContext = example_policyContext \<rparr>"

definition example_declineParams :: step_params where
  "example_declineParams =
     \<lparr> inputData = example_input, resumeData = JObj [(''approved'', JBool False)],
       runtimeContext = example_policyContext \<rparr>"

definition example_runWithoutQueue :: run where
  "example_runWithoutQueue = example_run\<lparr> internals := None \<rparr>"

text \<open>
  A state whose assistant message was loaded from memory, so that the in-flight
  response holds no assistant message, and one whose assistant response has no
  content; a request for the tool \<open>constructor\<close>, which is not registered; a message
  list in which a newer assistant message holds a record for another tool call, and one
  in which an older message holds a record under the toolCallId \<open>toString\<close>; and a
  first run of the gate for the toolCallId \<open>__proto__\<close>.
\<close>

definition example_stateWithoutResponse :: run_state where
  "example_stateWithoutResponse =
     example_state\<lparr> messageList := [(FromInput, example_userV2), (FromMemory, example_assistantV2)] \<rparr>"

definition example_stateWithoutContent :: run_state where
  "example_stateWithoutContent =
     example_state\<lparr> messageList :=
        [(FromInput, example_userV2), (FromResponse, example_assistantV2\<lparr> v2_content := None \<rparr>)] \<rparr>"

definition example_inheritedInput :: tool_call_input where
  "example_inheritedInput =
     \<lparr> toolCallId = ''c6'', toolName = ''constructor'', args = JObj [], providerExecuted = False,
       output' = JUndefined \<rparr>"

definition example_otherPendingV2 :: message_v2 where
  "example_otherPendingV2 =
     \<lparr> v2_id = ''msg-b'', v2_role = Assistant,
       v2_content = Some \<lparr> c_parts = [],
         c_metadata = Some \<lparr> pendingToolApprovals =
                                 Some \<lparr> ownRecords = [(''c7'', example_approval)], prototypeRecord = None \<rparr>,
                               otherMetadata = [] \<rparr> \<rparr> \<rparr>"

definition example_toStringPendingV2 :: message_v2 where
  "example_toStringPendingV2 =
     \<lparr> v2_id = ''msg-c'', v2_role = Assistant,
       v2_content = Some \<lparr> c_parts = [],
         c_metadata = Some \<lparr> pendingToolApprovals =
                                 Some \<lparr> ownRecords = [(''toString'', example_approval)], prototypeRecord = None \<rparr>,
                               otherMetadata = [] \<rparr> \<rparr> \<rparr>"

definition example_inheritedPendingState :: run_state where
  "example_inheritedPendingState =
     example_pendingState\<lparr> messageList :=
        [(FromMemory, example_toStringPendingV2), (FromMemory, example_otherPendingV2)] \<rparr>"

definition example_protoParams :: step_params where
  "example_protoParams =
     \<lparr> inputData = example_input\<lparr> toolCallId := ''__proto__'' \<rparr>, resumeData = JUndefined,
       runtimeContext = example_policyContext \<rparr>"

definition example_twoPendingState :: run_state where
  "example_twoPendingState =
     example_pendingState\<lparr> messageList :=
        [(FromMemory, example_userV2), (FromMemory, example_pendingAssistantV2),
         (FromMemory, example_otherPendingV2)] \<rparr>"

section \<open>The tool call args lookup: proofs\<close>

lemma checkArgs_eq: "checkArgs raw = Inr (if nonEmptyMapping raw then Some raw else None)"
  by (cases raw) (simp_all add: checkArgs_def js_or_def)

lemma find_append_alt:
  "find P (xs @ ys) = (case find P xs of Some x \<Rightarrow> Some x | None \<Rightarrow> find P ys)"
  by (induction xs) simp_all

lemma find_SomeD: "find P xs = Some x \<Longrightarrow> x \<in> set xs \<and> P x"
  by (induction xs) (auto split: if_splits)

lemma find_matching_part:
  "(case find (isMatchingPart cid) ps of Some (ToolInvocationPart ti) \<Rightarrow> f ti | _ \<Rightarrow> d)
     = (case find (carriesId cid) (invocationsOf ps) of Some ti \<Rightarrow> f ti | None \<Rightarrow> d)"
  by (induction ps rule: invocationsOf.induct) (simp_all add: isMatchingPart_def carriesId_def)

lemma checkParts_eq:
  "checkParts msg cid = Inr (find nonEmptyMapping (map inv_args (firstWithId cid (partInvocations msg))))"
  by (simp add: checkParts_def find_matching_part partInvocations_def firstWithId_def checkArgs_eq
      split: option.splits)

lemma checkToolInvocations_eq:
  "checkToolInvocations msg cid
     = Inr (find nonEmptyMapping (map inv_args (firstWithId cid (legacyInvocations msg))))"
  by (simp add: checkToolInvocations_def legacyInvocations_def firstWithId_def checkArgs_eq
      carriesId_def [abs_def] split: option.splits)

lemma message_scan:
  "(case checkParts msg cid of
      Inl e \<Rightarrow> Inl e
    | Inr (Some a) \<Rightarrow> Inr a
    | Inr None \<Rightarrow>
        (case checkToolInvocations msg cid of
           Inl e \<Rightarrow> Inl e
         | Inr (Some a) \<Rightarrow> Inr a
         | Inr None \<Rightarrow> k))
   = (case find nonEmptyMapping (matchesOf cid msg) of Some a \<Rightarrow> Inr a | None \<Rightarrow> k)"
  by (simp add: checkParts_eq checkToolInvocations_eq matchesOf_def entriesOf_def
      find_append_alt split: option.splits)

lemma findToolCallArgs_from_scan:
  "n \<le> length messages \<Longrightarrow>
   findToolCallArgs_from messages cid n =
     Inr (case find nonEmptyMapping (scanOrder (take n messages) cid) of
            Some a \<Rightarrow> a | None \<Rightarrow> JObj [])"
proof (induction n)
  case 0
  then show ?case by (simp add: scanOrder_def)
next
  case (Suc n)
  then have lt: "n < length messages" by simp
  have tk: "take (Suc n) messages = take n messages @ [messages ! n]"
    using lt by (simp add: take_Suc_conv_app_nth)
  show ?case
  proof (cases "db_role (messages ! n) = Assistant")
    case True
    then show ?thesis
      using Suc lt
      by (simp add: tk scanOrder_def message_scan find_append_alt split: option.splits)
  next
    case False
    then show ?thesis
      using Suc lt by (simp add: tk scanOrder_def)
  qed
qed

lemma findToolCallArgs_refines: "findToolCallArgs messages cid = Inr (findArgs_spec messages cid)"
  by (simp add: findToolCallArgs_def findArgs_spec_def findToolCallArgs_from_scan)

lemma find_None_all: "(\<forall>x \<in> set xs. \<not> P x) \<Longrightarrow> find P xs = None"
  by (induction xs) simp_all

lemma find_map_alt: "find P (map f xs) = map_option f (find (\<lambda>x. P (f x)) xs)"
  by (induction xs) simp_all

lemma scanOrder_append:
  "scanOrder (xs @ ys) cid = scanOrder ys cid @ scanOrder xs cid"
  by (simp add: scanOrder_def)

lemma scanOrder_offersNoArgs:
  "list_all (offersNoArgs cid) ms \<Longrightarrow>
   find nonEmptyMapping (scanOrder ms cid) = None"
proof (induction ms rule: rev_induct)
  case Nil
  then show ?case by (simp add: scanOrder_def)
next
  case (snoc m ms)
  have "find nonEmptyMapping (scanOrder [m] cid) = None"
    using snoc.prems
    by (auto simp: scanOrder_def offersNoArgs_def list_all_iff intro!: find_None_all)
  then show ?case
    using snoc by (simp add: scanOrder_append find_append_alt)
qed

lemma emptyResult_offersNoArgs:
  "isEmptyResultPhaseMessage cid m \<Longrightarrow> offersNoArgs cid m"
  by (auto simp: isEmptyResultPhaseMessage_def offersNoArgs_def matchesOf_def list_all_iff)

lemma split_call_recovered:
  assumes call: "isCallPhaseMessage cid callMsg ti"
    and res: "isEmptyResultPhaseMessage cid resultMsg"
    and rest: "list_all (offersNoArgs cid) (mid @ newer)"
  shows "findToolCallArgs (older @ [callMsg] @ mid @ [resultMsg] @ newer) cid = Inr (inv_args ti)"
proof -
  have later: "list_all (offersNoArgs cid) (mid @ [resultMsg] @ newer)"
    using rest emptyResult_offersNoArgs [OF res] by simp
  have none: "find nonEmptyMapping (scanOrder (mid @ [resultMsg] @ newer) cid) = None"
    by (rule scanOrder_offersNoArgs [OF later])
  have here: "find nonEmptyMapping (scanOrder [callMsg] cid) = Some (inv_args ti)"
    using call by (simp add: isCallPhaseMessage_def scanOrder_def matchesOf_def find_map_alt)
  have "scanOrder (older @ [callMsg] @ mid @ [resultMsg] @ newer) cid
      = scanOrder (mid @ [resultMsg] @ newer) cid @ scanOrder [callMsg] cid
          @ scanOrder older cid"
    by (simp only: scanOrder_append append_assoc)
  then show ?thesis
    using none here by (simp add: findToolCallArgs_refines findArgs_spec_def find_append_alt)
qed

lemma filter_find_unique:
  "length (filter P xs) \<le> 1 \<Longrightarrow> filter P xs = (case find P xs of None \<Rightarrow> [] | Some x \<Rightarrow> [x])"
proof (induction xs)
  case Nil
  then show ?case by simp
next
  case (Cons a xs)
  show ?case
  proof (cases "P a")
    case True
    then have "filter P xs = []" using Cons.prems by simp
    then show ?thesis using True by simp
  next
    case False
    then show ?thesis using Cons by simp
  qed
qed

lemma entriesOf_all:
  assumes "idUnique cid msg"
  shows "entriesOf cid msg = allEntriesOf cid msg"
proof -
  have "length (filter (carriesId cid) (partInvocations msg)) \<le> 1"
    and "length (filter (carriesId cid) (legacyInvocations msg)) \<le> 1"
    using assms by (simp_all add: idUnique_def)
  then show ?thesis
    using filter_find_unique [of "carriesId cid" "partInvocations msg"]
      filter_find_unique [of "carriesId cid" "legacyInvocations msg"]
    by (simp add: entriesOf_def allEntriesOf_def firstWithId_def)
qed

lemma scanOrder_all:
  "list_all (idUnique cid) messages \<Longrightarrow>
   scanOrder messages cid
     = concat (map (\<lambda>m. map inv_args (allEntriesOf cid m))
         (filter (\<lambda>m. db_role m = Assistant) (rev messages)))"
proof -
  assume u: "list_all (idUnique cid) messages"
  have "map (matchesOf cid) (filter (\<lambda>m. db_role m = Assistant) (rev messages))
      = map (\<lambda>m. map inv_args (allEntriesOf cid m)) (filter (\<lambda>m. db_role m = Assistant) (rev messages))"
    using u by (intro map_cong refl) (auto simp: matchesOf_def entriesOf_all list_all_iff)
  then show ?thesis unfolding scanOrder_def by (rule arg_cong)
qed

lemma firstWithId_sound:
  "ti \<in> set (firstWithId cid tis) \<Longrightarrow> ti \<in> set tis \<and> inv_toolCallId ti = cid"
  by (cases "find (carriesId cid) tis") (auto simp: firstWithId_def carriesId_def dest: find_SomeD)

lemma entriesOf_sound:
  "ti \<in> set (entriesOf cid m) \<Longrightarrow>
   ti \<in> set (partInvocations m @ legacyInvocations m) \<and> inv_toolCallId ti = cid"
  by (auto simp: entriesOf_def dest: firstWithId_sound)

lemma findToolCallArgs_sound:
  assumes res: "findToolCallArgs messages cid = Inr a" and ne: "a \<noteq> JObj []"
  shows "\<exists>m ti. m \<in> set messages \<and> db_role m = Assistant
           \<and> ti \<in> set (partInvocations m @ legacyInvocations m)
           \<and> inv_toolCallId ti = cid \<and> inv_args ti = a \<and> nonEmptyMapping a"
proof -
  from res have spec: "findArgs_spec messages cid = a" by (simp add: findToolCallArgs_refines)
  have "find nonEmptyMapping (scanOrder messages cid) = Some a"
  proof (cases "find nonEmptyMapping (scanOrder messages cid)")
    case None
    with spec ne show ?thesis by (simp add: findArgs_spec_def)
  next
    case (Some x)
    with spec show ?thesis by (simp add: findArgs_spec_def)
  qed
  from find_SomeD [OF this] have a: "a \<in> set (scanOrder messages cid)" and n: "nonEmptyMapping a"
    by simp_all
  from a obtain m where m: "m \<in> set messages" "db_role m = Assistant" "a \<in> set (matchesOf cid m)"
    by (auto simp: scanOrder_def)
  from m(3) obtain ti where ti: "ti \<in> set (entriesOf cid m)" "inv_args ti = a"
    by (auto simp: matchesOf_def)
  from entriesOf_sound [OF ti(1)] m ti n show ?thesis by blast
qed

text \<open>
  Claim C1, as amended. For every message history and toolCallId, \<open>findToolCallArgs\<close>
  never raises and returns what the scan worded in the specification returns: going
  through the messages newest first, reading assistant messages only, checking in each
  the first invocation carrying the toolCallId among the structured parts and then the
  first one carrying it in the legacy \<open>toolInvocations\<close> list (whatever their state), it
  returns the args of the first such match that is a non-empty mapping, and \<open>{}\<close> when
  no match is one. When every message holds the id at most once in each collection,
  these matches are all the invocations carrying the id. A result other than \<open>{}\<close> is
  the args of an invocation that carries the toolCallId, in an assistant message of the
  history. In particular, when a call-phase message carries non-empty args and a later
  result-phase message carries empty args, and no other message after the call-phase
  message offers non-empty args for the id, the call-phase args are returned.
\<close>

theorem findToolCallArgs_newest_nonempty_match:
  "findToolCallArgs messages cid = Inr (findArgs_spec messages cid)
   \<and> (list_all (offersNoArgs cid) messages \<longrightarrow>
        findToolCallArgs messages cid = Inr (JObj []))
   \<and> (list_all (idUnique cid) messages \<longrightarrow>
        findToolCallArgs messages cid
          = Inr (case find nonEmptyMapping
                        (concat (map (\<lambda>m. map inv_args (allEntriesOf cid m))
                           (filter (\<lambda>m. db_role m = Assistant) (rev messages)))) of
                   Some a \<Rightarrow> a
                 | None \<Rightarrow> JObj []))
   \<and> (findToolCallArgs messages cid = Inr a \<and> a \<noteq> JObj [] \<longrightarrow>
        (\<exists>m ti. m \<in> set messages \<and> db_role m = Assistant
           \<and> ti \<in> set (partInvocations m @ legacyInvocations m)
           \<and> inv_toolCallId ti = cid \<and> inv_args ti = a \<and> nonEmptyMapping a))
   \<and> (isCallPhaseMessage cid callMsg ti
        \<and> isEmptyResultPhaseMessage cid resultMsg
        \<and> list_all (offersNoArgs cid) (mid @ newer) \<longrightarrow>
        findToolCallArgs (older @ [callMsg] @ mid @ [resultMsg] @ newer) cid
          = Inr (inv_args ti))"
proof (intro conjI impI)
  show "findToolCallArgs messages cid = Inr (findArgs_spec messages cid)"
    by (rule findToolCallArgs_refines)
next
  assume "list_all (offersNoArgs cid) messages"
  then show "findToolCallArgs messages cid = Inr (JObj [])"
    by (simp add: findToolCallArgs_refines findArgs_spec_def scanOrder_offersNoArgs)
next
  assume "list_all (idUnique cid) messages"
  then show "findToolCallArgs messages cid
          = Inr (case find nonEmptyMapping
                        (concat (map (\<lambda>m. map inv_args (allEntriesOf cid m))
                           (filter (\<lambda>m. db_role m = Assistant) (rev messages)))) of
                   Some a \<Rightarrow> a
                 | None \<Rightarrow> JObj [])"
    by (simp add: findToolCallArgs_refines findArgs_spec_def scanOrder_all)
next
  assume "findToolCallArgs messages cid = Inr a \<and> a \<noteq> JObj []"
  then show "\<exists>m ti. m \<in> set messages \<and> db_role m = Assistant
           \<and> ti \<in> set (partInvocations m @ legacyInvocations m)
           \<and> inv_toolCallId ti = cid \<and> inv_args ti = a \<and> nonEmptyMapping a"
    using findToolCallArgs_sound by blast
next
  assume "isCallPhaseMessage cid callMsg ti
        \<and> isEmptyResultPhaseMessage cid resultMsg
        \<and> list_all (offersNoArgs cid) (mid @ newer)"
  then show "findToolCallArgs (older @ [callMsg] @ mid @ [resultMsg] @ newer) cid
          = Inr (inv_args ti)"
    using split_call_recovered by blast
qed

theorem findToolCallArgs_newest_nonempty_match_witness:
  "findToolCallArgs [example_callMessage, example_otherCallMessage, example_resultMessage] ''c1''
     = Inr (JObj [(''foo'', JStr ''bar'')])
   \<and> findArgs_spec [example_callMessage, example_otherCallMessage, example_resultMessage] ''c1''
     = JObj [(''foo'', JStr ''bar'')]
   \<and> findToolCallArgs [example_callMessage, example_otherCallMessage, example_resultMessage] ''c2''
     = Inr (JObj [(''city'', JStr ''Paris'')])
   \<and> findToolCallArgs [example_callMessage, example_otherCallMessage, example_resultMessage] ''c9''
     = Inr (JObj [])
   \<and> findToolCallArgs [example_resultMessage] ''c1'' = Inr (JObj [])
   \<and> (\<exists>m ti. m \<in> set [example_callMessage, example_otherCallMessage, example_resultMessage]
        \<and> ti \<in> set (partInvocations m @ legacyInvocations m)
        \<and> inv_toolCallId ti = ''c2'' \<and> inv_args ti = JObj [(''city'', JStr ''Paris'')])"
proof -
  let ?ti = "\<lparr> inv_state = Call, inv_toolCallId = ''c1'', inv_toolName = ''test_tool'',
             inv_args = JObj [(''foo'', JStr ''bar'')], inv_result = JUndefined \<rparr>"
  let ?ms = "[example_callMessage, example_otherCallMessage, example_resultMessage]"
  note ex = example_callMessage_def example_otherCallMessage_def example_resultMessage_def
  note sp = entriesOf_def matchesOf_def firstWithId_def partInvocations_def legacyInvocations_def
    carriesId_def
  have c: "isCallPhaseMessage ''c1'' example_callMessage ?ti"
    by (simp add: isCallPhaseMessage_def ex sp)
  have r: "isEmptyResultPhaseMessage ''c1'' example_resultMessage"
    by (simp add: isEmptyResultPhaseMessage_def ex sp)
  have o: "list_all (offersNoArgs ''c1'') ([example_otherCallMessage] @ [])"
    by (simp add: offersNoArgs_def ex sp)
  have n1: "list_all (offersNoArgs ''c1'') [example_resultMessage]"
    by (simp add: offersNoArgs_def ex sp)
  have n9: "list_all (offersNoArgs ''c9'') ?ms"
    by (simp add: offersNoArgs_def ex sp)
  have u: "list_all (idUnique ''c2'') ?ms"
    by (simp add: idUnique_def ex sp)
  have 1: "findToolCallArgs ?ms ''c1'' = Inr (JObj [(''foo'', JStr ''bar'')])"
    using findToolCallArgs_newest_nonempty_match
      [of "[]" "''c1''" "JObj []" example_callMessage ?ti example_resultMessage
          "[example_otherCallMessage]" "[]" "[]"] c r o
    by simp
  have 2: "findArgs_spec ?ms ''c1'' = JObj [(''foo'', JStr ''bar'')]"
    using findToolCallArgs_newest_nonempty_match [of ?ms "''c1''"] 1
    by simp
  have "findToolCallArgs ?ms ''c2''
          = Inr (case find nonEmptyMapping
                        (concat (map (\<lambda>m. map inv_args (allEntriesOf ''c2'' m))
                           (filter (\<lambda>m. db_role m = Assistant) (rev ?ms)))) of
                   Some a \<Rightarrow> a
                 | None \<Rightarrow> JObj [])"
    using findToolCallArgs_newest_nonempty_match [of ?ms "''c2''"] u
    by blast
  then have 3: "findToolCallArgs ?ms ''c2'' = Inr (JObj [(''city'', JStr ''Paris'')])"
    by (simp add: allEntriesOf_def ex sp)
  have 4: "findToolCallArgs ?ms ''c9'' = Inr (JObj [])"
    using findToolCallArgs_newest_nonempty_match [of ?ms "''c9''"] n9
    by blast
  have 5: "findToolCallArgs [example_resultMessage] ''c1'' = Inr (JObj [])"
    using findToolCallArgs_newest_nonempty_match [of "[example_resultMessage]" "''c1''"] n1
    by blast
  have 6: "\<exists>m ti. m \<in> set ?ms
        \<and> ti \<in> set (partInvocations m @ legacyInvocations m)
        \<and> inv_toolCallId ti = ''c2'' \<and> inv_args ti = JObj [(''city'', JStr ''Paris'')]"
    using findToolCallArgs_newest_nonempty_match [of ?ms "''c2''" "JObj [(''city'', JStr ''Paris'')]"] 3
    by blast
  from 1 2 3 4 5 6 show ?thesis by blast
qed

text \<open>
  The claim as first stated fails in two places. The newest non-empty match wins: with
  a call-phase message carrying \<open>{foo: 'bar'}\<close>, a later result-phase message carrying
  empty args, and a still later message carrying \<open>{other: 1}\<close> for the same id, the
  lookup returns \<open>{other: 1}\<close>, not the call-phase args. And a collection is searched
  with \<open>find\<close>, which stops at the first invocation carrying the id: when that one has
  empty args, a second invocation with the same id and non-empty args in the same parts
  array is not looked at, and the lookup returns \<open>{}\<close>.
\<close>

theorem findToolCallArgs_counterexample:
  "isCallPhaseMessage ''c1'' example_callMessage
      \<lparr> inv_state = Call, inv_toolCallId = ''c1'', inv_toolName = ''test_tool'',
        inv_args = JObj [(''foo'', JStr ''bar'')], inv_result = JUndefined \<rparr>
   \<and> isEmptyResultPhaseMessage ''c1'' example_resultMessage
   \<and> findToolCallArgs [example_callMessage, example_resultMessage, example_lateResultMessage] ''c1''
       = Inr (JObj [(''other'', JNum 1)])
   \<and> findToolCallArgs [example_callMessage, example_resultMessage, example_lateResultMessage] ''c1''
       \<noteq> Inr (JObj [(''foo'', JStr ''bar'')])
   \<and> map inv_args (allEntriesOf ''c1'' example_duplicateMessage)
       = [JObj [], JObj [(''foo'', JStr ''bar'')]]
   \<and> findToolCallArgs [example_duplicateMessage] ''c1'' = Inr (JObj [])"
  by (simp add: isCallPhaseMessage_def isEmptyResultPhaseMessage_def entriesOf_def firstWithId_def
      allEntriesOf_def partInvocations_def legacyInvocations_def carriesId_def
      findToolCallArgs_def checkParts_def checkToolInvocations_def checkArgs_def js_or_def
      isMatchingPart_def example_callMessage_def example_resultMessage_def
      example_lateResultMessage_def example_duplicateMessage_def numeral_3_eq_3)

section \<open>The Gemini normalizer: proofs\<close>

lemma findIndex_none: "(\<forall>x \<in> set xs. \<not> P x) \<Longrightarrow> findIndex P xs = None"
  by (induction xs) simp_all

lemma findIndex_first:
  "i < length xs \<Longrightarrow> P (xs ! i) \<Longrightarrow> (\<forall>j < i. \<not> P (xs ! j)) \<Longrightarrow> findIndex P xs = Some i"
proof (induction xs arbitrary: i)
  case Nil
  then show ?case by simp
next
  case (Cons x xs)
  show ?case
  proof (cases i)
    case 0
    with Cons.prems show ?thesis by simp
  next
    case (Suc k)
    have "\<not> P x" using Cons.prems(3) Suc by force
    moreover have "findIndex P xs = Some k"
    proof (rule Cons.IH)
      show "k < length xs" using Cons.prems(1) Suc by simp
      show "P (xs ! k)" using Cons.prems(2) Suc by simp
      show "\<forall>j<k. \<not> P (xs ! j)"
      proof (intro allI impI)
        fix j assume "j < k"
        then have "Suc j < i" using Suc by simp
        then have "\<not> P ((x # xs) ! Suc j)" using Cons.prems(3) by blast
        then show "\<not> P (xs ! j)" by simp
      qed
    qed
    ultimately show ?thesis using Suc by simp
  qed
qed

lemma findIndex_isFirstNonSystem:
  "isFirstNonSystem messages i \<Longrightarrow> findIndex (\<lambda>m. m_role m \<noteq> System) messages = Some i"
  unfolding isFirstNonSystem_def by (intro findIndex_first) auto

text \<open>
  Claim C5. When the first non-system message of a sequence has role \<open>assistant\<close>, the
  Gemini normalizer returns the sequence with exactly one synthetic user message (content
  \<open>'.'\<close>) inserted immediately before it and everything else unchanged. When the
  sequence holds no non-system message (system messages only, or empty), it raises the
  error \<open>NO_USER_OR_ASSISTANT_MESSAGES\<close> with domain agent and category user. When the
  first non-system message has role \<open>user\<close>, the sequence is returned unchanged.
\<close>

theorem ensureGeminiCompatibleMessages_cases:
  "(isFirstNonSystem messages i \<and> m_role (messages ! i) = Assistant \<longrightarrow>
      ensureGeminiCompatibleMessages messages
        = Inr (take i messages @ [\<lparr> m_role = User, m_content = TextContent ''.'' \<rparr>] @ drop i messages))
   \<and> ((\<forall>m \<in> set messages. m_role m = System) \<longrightarrow>
      (\<exists>e. ensureGeminiCompatibleMessages messages = Inl e
         \<and> err_id e = ''NO_USER_OR_ASSISTANT_MESSAGES''
         \<and> err_domain e = AGENT \<and> err_category e = USER))
   \<and> (isFirstNonSystem messages i \<and> m_role (messages ! i) = User \<longrightarrow>
      ensureGeminiCompatibleMessages messages = Inr messages)"
proof (intro conjI impI)
  assume "isFirstNonSystem messages i \<and> m_role (messages ! i) = Assistant"
  then have "findIndex (\<lambda>m. m_role m \<noteq> System) messages = Some i" "m_role (messages ! i) = Assistant"
    by (simp_all add: findIndex_isFirstNonSystem)
  then show "ensureGeminiCompatibleMessages messages
        = Inr (take i messages @ [\<lparr> m_role = User, m_content = TextContent ''.'' \<rparr>] @ drop i messages)"
    by (simp add: ensureGeminiCompatibleMessages_def findIndex_isFirstNonSystem
        splice_insert_def syntheticUserMessage_def)
next
  assume "\<forall>m \<in> set messages. m_role m = System"
  then have "findIndex (\<lambda>m. m_role m \<noteq> System) messages = None"
    by (intro findIndex_none) simp
  then show "\<exists>e. ensureGeminiCompatibleMessages messages = Inl e
         \<and> err_id e = ''NO_USER_OR_ASSISTANT_MESSAGES''
         \<and> err_domain e = AGENT \<and> err_category e = USER"
    by (simp add: ensureGeminiCompatibleMessages_def noMessagesError_def)
next
  assume "isFirstNonSystem messages i \<and> m_role (messages ! i) = User"
  then have "findIndex (\<lambda>m. m_role m \<noteq> System) messages = Some i" "m_role (messages ! i) = User"
    by (simp_all add: findIndex_isFirstNonSystem)
  then show "ensureGeminiCompatibleMessages messages = Inr messages"
    by (simp add: ensureGeminiCompatibleMessages_def findIndex_isFirstNonSystem)
qed

theorem ensureGeminiCompatibleMessages_cases_witness:
  "ensureGeminiCompatibleMessages [example_systemMessage, example_assistantMessage, example_userMessage]
     = Inr [example_systemMessage, \<lparr> m_role = User, m_content = TextContent ''.'' \<rparr>, example_assistantMessage, example_userMessage]
   \<and> (\<exists>e. ensureGeminiCompatibleMessages [example_systemMessage, example_systemMessage] = Inl e
         \<and> err_id e = ''NO_USER_OR_ASSISTANT_MESSAGES''
         \<and> err_domain e = AGENT \<and> err_category e = USER)
   \<and> (\<exists>e. ensureGeminiCompatibleMessages [] = Inl e
         \<and> err_id e = ''NO_USER_OR_ASSISTANT_MESSAGES''
         \<and> err_domain e = AGENT \<and> err_category e = USER)
   \<and> ensureGeminiCompatibleMessages [example_systemMessage, example_userMessage, example_assistantMessage] = Inr [example_systemMessage, example_userMessage, example_assistantMessage]"
proof -
  have a: "isFirstNonSystem [example_systemMessage, example_assistantMessage, example_userMessage] 1 \<and> m_role ([example_systemMessage, example_assistantMessage, example_userMessage] ! 1) = Assistant"
    by (simp add: isFirstNonSystem_def example_systemMessage_def example_assistantMessage_def)
  have b: "\<forall>m \<in> set [example_systemMessage, example_systemMessage]. m_role m = System"
    by (simp add: example_systemMessage_def)
  have c: "\<forall>m \<in> set ([] :: model_message list). m_role m = System"
    by simp
  have d: "isFirstNonSystem [example_systemMessage, example_userMessage, example_assistantMessage] 1 \<and> m_role ([example_systemMessage, example_userMessage, example_assistantMessage] ! 1) = User"
    by (simp add: isFirstNonSystem_def example_systemMessage_def example_userMessage_def)
  have 1: "ensureGeminiCompatibleMessages [example_systemMessage, example_assistantMessage, example_userMessage]
     = Inr [example_systemMessage, \<lparr> m_role = User, m_content = TextContent ''.'' \<rparr>, example_assistantMessage, example_userMessage]"
    using ensureGeminiCompatibleMessages_cases [of "[example_systemMessage, example_assistantMessage, example_userMessage]" 1] a by simp
  have 2: "\<exists>e. ensureGeminiCompatibleMessages [example_systemMessage, example_systemMessage] = Inl e
         \<and> err_id e = ''NO_USER_OR_ASSISTANT_MESSAGES''
         \<and> err_domain e = AGENT \<and> err_category e = USER"
    using ensureGeminiCompatibleMessages_cases [of "[example_systemMessage, example_systemMessage]" 0] b by blast
  have 3: "\<exists>e. ensureGeminiCompatibleMessages [] = Inl e
         \<and> err_id e = ''NO_USER_OR_ASSISTANT_MESSAGES''
         \<and> err_domain e = AGENT \<and> err_category e = USER"
    using ensureGeminiCompatibleMessages_cases [of "[]" 0] c by blast
  have 4: "ensureGeminiCompatibleMessages [example_systemMessage, example_userMessage, example_assistantMessage] = Inr [example_systemMessage, example_userMessage, example_assistantMessage]"
    using ensureGeminiCompatibleMessages_cases [of "[example_systemMessage, example_userMessage, example_assistantMessage]" 1] d by blast
  from 1 2 3 4 show ?thesis by blast
qed

section \<open>The Anthropic normalizer: proofs\<close>

lemma enrichPart_eq: "enrichPart dbMessages part = Inr (withReconciledInput dbMessages part)"
  by (cases part) (simp_all add: enrichPart_def withReconciledInput_def findToolCallArgs_refines)

lemma map_throwing_total: "(\<And>x. f x = Inr (g x)) \<Longrightarrow> map_throwing f xs = Inr (map g xs)"
  by (induction xs) simp_all

lemma enrichToolResultsWithInput_eq:
  "enrichToolResultsWithInput message dbMessages =
     Inr (case partsOf message of
            Some ps \<Rightarrow> if m_role message = Tool
                        then message\<lparr> m_content := PartsContent (map (withReconciledInput dbMessages) ps) \<rparr>
                        else message
          | None \<Rightarrow> message)"
  by (simp add: enrichToolResultsWithInput_def partsOf_def
      map_throwing_total [of "enrichPart dbMessages" "withReconciledInput dbMessages", OF enrichPart_eq]
      split: model_content.splits)

text \<open>
  Claim C4. For every message sequence and backing history, the Anthropic normalizer
  returns (without raising) a sequence of the same length in which every part of type
  tool-result inside a tool-role message with a parts array carries an \<open>input\<close> equal
  to the args \<open>findToolCallArgs\<close> reconciles for the part's toolCallId, and every other
  part and every other message is unchanged. In the scenario of a call-phase part
  \<open>{toolCallId: 'c1', args: {foo: 'bar'}}\<close> followed by a result-phase part with empty
  args, the normalized tool-result part for \<open>c1\<close> has \<open>input = {foo: 'bar'}\<close> (the
  witness below).
\<close>

theorem ensureAnthropicCompatibleMessages_enriches:
  "\<exists>out. ensureAnthropicCompatibleMessages messages dbMessages = Inr out
     \<and> length out = length messages
     \<and> (\<forall>i < length messages.
          (case partsOf (messages ! i) of
             None \<Rightarrow> out ! i = messages ! i
           | Some ps \<Rightarrow>
               if m_role (messages ! i) \<noteq> Tool then out ! i = messages ! i
               else m_role (out ! i) = Tool
                 \<and> (\<exists>ps'. partsOf (out ! i) = Some ps' \<and> length ps' = length ps
                      \<and> (\<forall>j < length ps.
                           (case ps ! j of
                              ToolResultPart tr \<Rightarrow>
                                (\<exists>a. findToolCallArgs dbMessages (tr_toolCallId tr) = Inr a
                                   \<and> ps' ! j = ToolResultPart (tr\<lparr> tr_input := Some a \<rparr>))
                            | _ \<Rightarrow> ps' ! j = ps ! j)))))"
proof -
  let ?g = "\<lambda>message. (case partsOf message of
            Some ps \<Rightarrow> if m_role message = Tool
                        then message\<lparr> m_content := PartsContent (map (withReconciledInput dbMessages) ps) \<rparr>
                        else message
          | None \<Rightarrow> message)"
  have out: "ensureAnthropicCompatibleMessages messages dbMessages = Inr (map ?g messages)"
    unfolding ensureAnthropicCompatibleMessages_def
    by (rule map_throwing_total) (rule enrichToolResultsWithInput_eq)
  have "\<forall>i < length messages.
          (case partsOf (messages ! i) of
             None \<Rightarrow> map ?g messages ! i = messages ! i
           | Some ps \<Rightarrow>
               if m_role (messages ! i) \<noteq> Tool then map ?g messages ! i = messages ! i
               else m_role (map ?g messages ! i) = Tool
                 \<and> (\<exists>ps'. partsOf (map ?g messages ! i) = Some ps' \<and> length ps' = length ps
                      \<and> (\<forall>j < length ps.
                           (case ps ! j of
                              ToolResultPart tr \<Rightarrow>
                                (\<exists>a. findToolCallArgs dbMessages (tr_toolCallId tr) = Inr a
                                   \<and> ps' ! j = ToolResultPart (tr\<lparr> tr_input := Some a \<rparr>))
                            | _ \<Rightarrow> ps' ! j = ps ! j))))"
    by (auto simp: partsOf_def withReconciledInput_def findToolCallArgs_refines
        split: option.splits model_content.splits model_part.splits)
  with out show ?thesis by simp
qed

theorem ensureAnthropicCompatibleMessages_enriches_witness:
  "\<exists>out ps'. ensureAnthropicCompatibleMessages example_modelMessages [example_callMessage, example_resultMessage] = Inr out
     \<and> length out = 2 \<and> out ! 0 = example_modelMessages ! 0
     \<and> m_role (out ! 1) = Tool \<and> partsOf (out ! 1) = Some ps' \<and> length ps' = 1
     \<and> ps' ! 0 = ToolResultPart (example_toolResult\<lparr> tr_input := Some (JObj [(''foo'', JStr ''bar'')]) \<rparr>)"
proof -
  let ?db = "[example_callMessage, example_resultMessage]"
  have a: "findToolCallArgs ?db ''c1'' = Inr (JObj [(''foo'', JStr ''bar'')])"
    by (simp add: findToolCallArgs_def checkParts_def checkToolInvocations_def checkArgs_def js_or_def
        isMatchingPart_def example_callMessage_def example_resultMessage_def numeral_2_eq_2)
  obtain out where out: "ensureAnthropicCompatibleMessages example_modelMessages ?db = Inr out"
    and len: "length out = length example_modelMessages"
    and pt: "\<forall>i < length example_modelMessages.
          (case partsOf (example_modelMessages ! i) of
             None \<Rightarrow> out ! i = example_modelMessages ! i
           | Some ps \<Rightarrow>
               if m_role (example_modelMessages ! i) \<noteq> Tool then out ! i = example_modelMessages ! i
               else m_role (out ! i) = Tool
                 \<and> (\<exists>ps'. partsOf (out ! i) = Some ps' \<and> length ps' = length ps
                      \<and> (\<forall>j < length ps.
                           (case ps ! j of
                              ToolResultPart tr \<Rightarrow>
                                (\<exists>a. findToolCallArgs ?db (tr_toolCallId tr) = Inr a
                                   \<and> ps' ! j = ToolResultPart (tr\<lparr> tr_input := Some a \<rparr>))
                            | _ \<Rightarrow> ps' ! j = ps ! j))))"
    using ensureAnthropicCompatibleMessages_enriches [of example_modelMessages ?db] by blast
  have l2: "length out = 2" using len by (simp add: example_modelMessages_def)
  have p0: "out ! 0 = example_modelMessages ! 0"
    using pt [rule_format, of 0] by (simp add: example_modelMessages_def partsOf_def)
  have p1: "m_role (out ! 1) = Tool \<and> (\<exists>ps'. partsOf (out ! 1) = Some ps' \<and> length ps' = 1
     \<and> ps' ! 0 = ToolResultPart (example_toolResult\<lparr> tr_input := Some (JObj [(''foo'', JStr ''bar'')]) \<rparr>))"
    using pt [rule_format, of 1] a
    by (simp add: example_modelMessages_def partsOf_def example_toolResult_def)
  from out l2 p0 p1 show ?thesis by blast
qed

section \<open>The tool call step: proofs\<close>

lemmas example_defs = example_getServerTime_def example_clientTool_def example_failingTool_def
  example_internal_def example_run_def example_userV2_def example_assistantV2_def example_state_def
  example_input_def example_providerInput_def example_policyContext_def example_unknownInput_def
  example_clientInput_def example_failingInput_def example_approval_def example_pendingAssistantV2_def
  example_pendingState_def example_gateParams_def example_approveParams_def example_declineParams_def
  example_runWithoutQueue_def example_stateWithoutResponse_def example_stateWithoutContent_def
  example_inheritedInput_def
  example_otherPendingV2_def example_twoPendingState_def example_toStringPendingV2_def
  example_inheritedPendingState_def example_protoParams_def

lemmas step_defs = createToolCallStep_def providerExecutedStep_def resolveTool_def
  callOnInputAvailable_def tryBlock_def invokeExecute_def approvalRequired_def
  runtimeContext_get_def toolOptionsOf_def toolCallSpanAttributes_def approvalChunk_def
  approvalSuspendCall_def toolSuspend_def flushMessagesBeforeSuspension_def ensureThreadExists_def
  flushMessages_def removeToolApprovalMetadata_def addToolApprovalMetadata_def truthy_string_def
  get_all_v2_def get_response_v2_def write_message_def getMetadata_def holdsApproval_def
  emptyMetadata_def errorMessage_def notApprovedText_def readTool_def inheritedMember_def
  objectPrototypeNames_def emptyObject_def recordProperty_def readsTruthy_def assignProperty_def
  deleteProperty_def Let_def

subsection \<open>The last entry of a view\<close>

lemma find_filter_alt: "find P (filter Q xs) = find (\<lambda>x. Q x \<and> P x) xs"
  by (induction xs) simp_all

lemma enumerate_snoc: "enumerate n (xs @ [x]) = enumerate n xs @ [(n + length xs, x)]"
  by (simp add: enumerate_append_eq)

lemma find_last_enumerate:
  "k < length xs \<Longrightarrow> Q (k, xs ! k) \<Longrightarrow> (\<forall>j. k < j \<and> j < length xs \<longrightarrow> \<not> Q (j, xs ! j)) \<Longrightarrow>
   find Q (rev (enumerate 0 xs)) = Some (k, xs ! k)"
proof (induction xs rule: rev_induct)
  case Nil
  then show ?case by simp
next
  case (snoc x xs)
  show ?case
  proof (cases "k = length xs")
    case True
    then show ?thesis using snoc.prems(2) by (simp add: enumerate_snoc)
  next
    case False
    then have lt: "k < length xs" using snoc.prems(1) by simp
    have notlast: "\<not> Q (length xs, x)"
      using snoc.prems(3) [rule_format, of "length xs"] lt by simp
    have "find Q (rev (enumerate 0 xs)) = Some (k, xs ! k)"
    proof (rule snoc.IH [OF lt])
      show "Q (k, xs ! k)" using snoc.prems(2) lt by (simp add: nth_append)
      show "\<forall>j. k < j \<and> j < length xs \<longrightarrow> \<not> Q (j, xs ! j)"
      proof (intro allI impI)
        fix j assume j: "k < j \<and> j < length xs"
        then have "\<not> Q (j, (xs @ [x]) ! j)" using snoc.prems(3) by simp
        then show "\<not> Q (j, xs ! j)" using j by (simp add: nth_append)
      qed
    qed
    then show ?thesis using notlast lt by (simp add: enumerate_snoc nth_append)
  qed
qed

lemma find_last_enumerate_none:
  "(\<forall>j < length xs. \<not> Q (j, xs ! j)) \<Longrightarrow> find Q (rev (enumerate 0 xs)) = None"
  by (auto simp: find_None_iff in_set_enumerate_eq)

lemma find_enumerate_SomeD:
  "find Q (rev (enumerate 0 xs)) = Some (k, y) \<Longrightarrow> k < length xs \<and> y = xs ! k \<and> Q (k, y)"
  by (drule find_SomeD) (auto simp: in_set_enumerate_eq)

lemma lastAssistant_find:
  "find (\<lambda>(r, msg). v2_role msg = Assistant) (rev (get_response_v2 ml))
     = map_option (\<lambda>x. (fst x, snd (snd x)))
         (find (\<lambda>x. fst (snd x) = FromResponse \<and> v2_role (snd (snd x)) = Assistant)
            (rev (enumerate 0 ml)))"
  by (simp add: get_response_v2_def rev_map rev_filter find_map_alt find_filter_alt case_prod_unfold)

lemma lastHolder_find:
  "find (\<lambda>(r, msg). holdsApproval cid msg) (rev (get_all_v2 ml))
     = map_option (\<lambda>x. (fst x, snd (snd x)))
         (find (\<lambda>x. holdsApproval cid (snd (snd x))) (rev (enumerate 0 ml)))"
  by (simp add: get_all_v2_def rev_map find_map_alt case_prod_unfold)

lemma lastAssistant_found:
  "isLastAssistantResponse ml k \<Longrightarrow>
   find (\<lambda>(r, msg). v2_role msg = Assistant) (rev (get_response_v2 ml)) = Some (k, snd (ml ! k))"
  unfolding lastAssistant_find isLastAssistantResponse_def
  by (subst find_last_enumerate [where k = k]) auto

lemma lastAssistant_missing:
  "(\<forall>k. \<not> isLastAssistantResponse ml k) \<Longrightarrow>
   find (\<lambda>(r, msg). v2_role msg = Assistant) (rev (get_response_v2 ml)) = None"
proof -
  assume none: "\<forall>k. \<not> isLastAssistantResponse ml k"
  let ?Q = "\<lambda>x. fst (snd x) = FromResponse \<and> v2_role (snd (snd x)) = Assistant"
  have "find ?Q (rev (enumerate 0 ml)) = None"
  proof (cases "find ?Q (rev (enumerate 0 ml))")
    case None
    then show ?thesis .
  next
    case (Some p)
    obtain k y where p: "p = (k, y)" by (cases p)
    from Some p have f: "find ?Q (rev (enumerate 0 ml)) = Some (k, y)" by simp
    from find_enumerate_SomeD [OF f] have k: "k < length ml" "y = ml ! k" "?Q (k, y)" by auto
    have later: "\<forall>j. k < j \<and> j < length ml \<longrightarrow> \<not> ?Q (j, ml ! j)"
    proof (intro allI impI notI)
      fix j assume j: "k < j \<and> j < length ml" and q: "?Q (j, ml ! j)"
      define J where "J = (GREATEST i. i < length ml \<and> ?Q (i, ml ! i))"
      have ex: "j < length ml \<and> ?Q (j, ml ! j)" using j q by simp
      have bnd: "\<forall>i. i < length ml \<and> ?Q (i, ml ! i) \<longrightarrow> i \<le> length ml" by simp
      have Jp: "J < length ml \<and> ?Q (J, ml ! J)"
        unfolding J_def by (rule GreatestI_nat [where P = "\<lambda>i. i < length ml \<and> ?Q (i, ml ! i)", OF ex bnd [rule_format]])
      have Jmax: "\<And>i. i < length ml \<and> ?Q (i, ml ! i) \<Longrightarrow> i \<le> J"
        unfolding J_def by (rule Greatest_le_nat [where P = "\<lambda>i. i < length ml \<and> ?Q (i, ml ! i)", OF _ bnd [rule_format]])
      have "isLastAssistantResponse ml J"
        unfolding isLastAssistantResponse_def using Jp Jmax by (fastforce simp: case_prod_beta)
      with none show False by blast
    qed
    have "isLastAssistantResponse ml k"
      unfolding isLastAssistantResponse_def using k later by (auto simp: case_prod_beta)
    with none show ?thesis by blast
  qed
  then show ?thesis by (simp add: lastAssistant_find)
qed

subsection \<open>Adding and removing approval metadata\<close>

lemma readsTruthy_own:
  "\<not> inheritsName obj k \<Longrightarrow> readsTruthy obj k \<longleftrightarrow> map_of (ownRecords obj) k \<noteq> None"
  by (auto simp: readsTruthy_def inheritsName_def split: option.splits)

lemma holdsRecord_holdsApproval: "holdsRecord cid msg \<Longrightarrow> holdsApproval cid msg"
  by (auto simp: holdsRecord_def holdsApproval_def pendingOf_def approvalsKey_def readsTruthy_def
      split: option.splits)

lemma holdsApproval_holdsRecord:
  assumes "\<not> nameInherited cid ml" and "j < length ml"
  shows "holdsApproval cid (snd (ml ! j)) \<longleftrightarrow> holdsRecord cid (snd (ml ! j))"
proof (cases "approvalsKey (snd (ml ! j))")
  case None
  then show ?thesis
    by (simp add: holdsApproval_def holdsRecord_def pendingOf_def approvalsKey_def split: option.splits)
next
  case (Some obj)
  have "ml ! j \<in> set ml" using assms(2) by simp
  then have "\<not> inheritsName obj cid"
    using assms(1) Some by (auto simp: nameInherited_def list_ex_iff case_prod_unfold)
  then show ?thesis
    using Some
    by (auto simp: holdsApproval_def holdsRecord_def pendingOf_def approvalsKey_def readsTruthy_own
        split: option.splits)
qed

lemma add_at:
  "isLastAssistantResponse ml k \<Longrightarrow> v2_content (snd (ml ! k)) = Some c \<Longrightarrow>
   addToolApprovalMetadata rid ml cid name a
     = ml[k := (fst (ml ! k), attachApproval cid (approvalRecord rid name a) (snd (ml ! k)) c)]"
  by (simp add: addToolApprovalMetadata_def lastAssistant_found write_message_def Let_def
      attachApproval_def approvalRecord_def)

lemma add_no_content:
  "isLastAssistantResponse ml k \<Longrightarrow> v2_content (snd (ml ! k)) = None \<Longrightarrow>
   addToolApprovalMetadata rid ml cid name a = ml"
  by (simp add: addToolApprovalMetadata_def lastAssistant_found)

lemma add_no_message:
  "(\<forall>k. \<not> isLastAssistantResponse ml k) \<Longrightarrow> addToolApprovalMetadata rid ml cid name a = ml"
  by (simp add: addToolApprovalMetadata_def lastAssistant_missing)

lemma add_cases:
  "addToolApprovalMetadata rid ml cid name a = ml \<or>
   (\<exists>k c. k < length ml \<and> v2_content (snd (ml ! k)) = Some c \<and>
      addToolApprovalMetadata rid ml cid name a
        = ml[k := (fst (ml ! k), attachApproval cid (approvalRecord rid name a) (snd (ml ! k)) c)])"
proof (cases "\<exists>k. isLastAssistantResponse ml k")
  case False
  then show ?thesis by (simp add: add_no_message)
next
  case True
  then obtain k where k: "isLastAssistantResponse ml k" by blast
  show ?thesis
  proof (cases "v2_content (snd (ml ! k))")
    case None
    then show ?thesis using k by (simp add: add_no_content)
  next
    case (Some c)
    have "k < length ml" using k by (simp add: isLastAssistantResponse_def)
    then show ?thesis using add_at [OF k Some] Some by blast
  qed
qed

lemma approvalsKey_attach:
  "v2_content msg = Some c \<Longrightarrow>
   approvalsKey (attachApproval cid rec msg c)
     = Some (assignProperty cid rec (case approvalsKey msg of None \<Rightarrow> emptyObject | Some obj \<Rightarrow> obj))"
  by (simp add: attachApproval_def approvalsKey_def getMetadata_def emptyMetadata_def
      split: option.splits)

lemma pendingOf_attach:
  "v2_content msg = Some c \<Longrightarrow> cid \<noteq> ''__proto__'' \<Longrightarrow>
   pendingOf (attachApproval cid rec msg c) = AList.update cid rec (pendingOf msg)"
  by (simp add: pendingOf_def [of "attachApproval cid rec msg c"] approvalsKey_attach
      assignProperty_def emptyObject_def pendingOf_def split: option.splits)

lemma filter_key_absent: "k \<notin> fst ` set al \<Longrightarrow> filter (\<lambda>kv. fst kv = k) al = []"
  by (induction al) auto

lemma update_one_entry:
  "distinct (map fst al) \<Longrightarrow> length (filter (\<lambda>kv. fst kv = k) (AList.update k v al)) = 1"
  by (induction al) (auto simp: filter_key_absent)

lemma pendingOf_distinct: "approvalsWellFormed msg \<Longrightarrow> distinct (map fst (pendingOf msg))"
  by (simp add: approvalsWellFormed_def pendingOf_def split: option.splits)

lemma wellFormed_attach:
  "v2_content msg = Some c \<Longrightarrow> cid \<noteq> ''__proto__'' \<Longrightarrow> approvalsWellFormed msg \<Longrightarrow>
   approvalsWellFormed (attachApproval cid rec msg c)"
  by (simp add: approvalsWellFormed_def approvalsKey_attach assignProperty_def emptyObject_def
      distinct_update split: option.splits)

lemma invariant_update:
  "approvalsInvariant ml \<Longrightarrow> k < length ml \<Longrightarrow> approvalsWellFormed msg \<Longrightarrow>
   approvalsInvariant (ml[k := (src, msg)])"
  by (auto simp: approvalsInvariant_def list_all_iff dest!: set_update_subset_insert [THEN subsetD])

lemma invariant_nth:
  "approvalsInvariant ml \<Longrightarrow> k < length ml \<Longrightarrow> approvalsWellFormed (snd (ml ! k))"
  by (auto simp: approvalsInvariant_def list_all_iff case_prod_unfold)

lemma add_preserves_invariant:
  "cid \<noteq> ''__proto__'' \<Longrightarrow> approvalsInvariant ml \<Longrightarrow>
   approvalsInvariant (addToolApprovalMetadata rid ml cid name a)"
  using add_cases [of rid ml cid name a]
  by (auto intro!: invariant_update wellFormed_attach invariant_nth)

lemma lastHolder_found:
  "isFoundHolder cid ml k \<Longrightarrow>
   find (\<lambda>(r, msg). holdsApproval cid msg) (rev (get_all_v2 ml)) = Some (k, snd (ml ! k))"
  unfolding lastHolder_find isFoundHolder_def
  by (subst find_last_enumerate [where k = k]) auto

lemma lastHolder_SomeD:
  "find (\<lambda>(r, msg). holdsApproval cid msg) (rev (get_all_v2 ml)) = Some (k, msg) \<Longrightarrow>
   k < length ml \<and> msg = snd (ml ! k) \<and> holdsApproval cid msg"
  unfolding lastHolder_find
  by (auto dest!: find_enumerate_SomeD) (metis snd_conv)+

lemma lastHolder_isFoundHolder:
  "\<not> nameInherited cid ml \<Longrightarrow> isLastHolder cid ml k \<Longrightarrow> isFoundHolder cid ml k"
  unfolding isLastHolder_def isFoundHolder_def
  by (auto simp: holdsApproval_holdsRecord)

lemma messageList_flushMessages [simp]: "messageList (flushMessages sqm tid msg st) = messageList st"
  by (simp add: flushMessages_def)

lemma remove_unconfigured:
  "\<not> persistenceConfigured io \<Longrightarrow> removeToolApprovalMetadata io cid st = st"
  by (auto simp: removeToolApprovalMetadata_def persistenceConfigured_def split: option.splits)

lemma holdsApproval_content:
  "holdsApproval cid msg \<Longrightarrow>
   \<exists>c md p. v2_content msg = Some c \<and> c_metadata c = Some md \<and> pendingToolApprovals md = Some p"
  by (auto simp: holdsApproval_def getMetadata_def split: option.splits)

lemma remove_at:
  "persistenceConfigured io \<Longrightarrow> isFoundHolder cid (messageList st) k \<Longrightarrow>
   messageList (removeToolApprovalMetadata io cid st)
     = (messageList st)[k := (fst (messageList st ! k), detachApproval cid (snd (messageList st ! k)))]"
proof -
  assume pc: "persistenceConfigured io" and lh: "isFoundHolder cid (messageList st) k"
  from lh have "holdsApproval cid (snd (messageList st ! k))" by (simp add: isFoundHolder_def)
  from holdsApproval_content [OF this] obtain c md p where
    c: "v2_content (snd (messageList st ! k)) = Some c" "c_metadata c = Some md"
       "pendingToolApprovals md = Some p" by blast
  from pc obtain intl sqm where io: "io = Some intl" "saveQueueManager intl = Some sqm"
      "truthy_string (threadId intl)"
    by (auto simp: persistenceConfigured_def split: option.splits)
  show ?thesis
    using c io
    by (simp add: removeToolApprovalMetadata_def lastHolder_found [OF lh] detachApproval_def
        write_message_def Let_def)
qed

lemma remove_nobody:
  "(\<forall>k. \<not> isFoundHolder cid (messageList st) k) \<Longrightarrow> removeToolApprovalMetadata io cid st = st"
proof -
  assume none: "\<forall>k. \<not> isFoundHolder cid (messageList st) k"
  have "find (\<lambda>(r, msg). holdsApproval cid msg) (rev (get_all_v2 (messageList st))) = None"
  proof (rule ccontr)
    assume "find (\<lambda>(r, msg). holdsApproval cid msg) (rev (get_all_v2 (messageList st))) \<noteq> None"
    then obtain k msg where
      f: "find (\<lambda>(r, msg). holdsApproval cid msg) (rev (get_all_v2 (messageList st))) = Some (k, msg)"
      by auto
    let ?P = "\<lambda>i. i < length (messageList st) \<and> holdsApproval cid (snd (messageList st ! i))"
    from lastHolder_SomeD [OF f] have ex: "?P k" by blast
    define J where "J = (GREATEST i. ?P i)"
    have bnd: "\<And>i. ?P i \<Longrightarrow> i \<le> length (messageList st)" by simp
    have Jp: "?P J" unfolding J_def by (rule GreatestI_nat [where P = ?P, OF ex bnd])
    have Jmax: "\<And>i. ?P i \<Longrightarrow> i \<le> J"
      unfolding J_def by (rule Greatest_le_nat [where P = ?P, OF _ bnd])
    have "isFoundHolder cid (messageList st) J"
      unfolding isFoundHolder_def using Jp Jmax by fastforce
    with none show False by blast
  qed
  then show ?thesis
    by (simp add: removeToolApprovalMetadata_def split: option.splits)
qed

lemma pendingOf_detach: "pendingOf (detachApproval cid msg) = AList.delete cid (pendingOf msg)"
  by (simp add: detachApproval_def pendingOf_def approvalsKey_def getMetadata_def deleteProperty_def
      split: option.splits)

lemma not_holds_detach: "\<not> holdsRecord cid (detachApproval cid msg)"
  by (simp add: holdsRecord_def pendingOf_detach delete_conv')

lemma approvalsKey_detach:
  "approvalsKey msg = Some p \<Longrightarrow>
   approvalsKey (detachApproval cid msg)
     = (if AList.delete cid (ownRecords p) = [] then None else Some (deleteProperty cid p))"
  by (auto simp: detachApproval_def approvalsKey_def getMetadata_def deleteProperty_def
      split: option.splits)

lemma approvalsKey_detach_None:
  "approvalsKey msg = None \<Longrightarrow> approvalsKey (detachApproval cid msg) = None"
  by (auto simp: detachApproval_def approvalsKey_def getMetadata_def split: option.splits)

lemma wellFormed_detach:
  "approvalsWellFormed msg \<Longrightarrow> approvalsWellFormed (detachApproval cid msg)"
  by (cases "approvalsKey msg")
     (auto simp: approvalsWellFormed_def approvalsKey_detach approvalsKey_detach_None
        deleteProperty_def distinct_delete)

lemma remove_preserves_invariant:
  "approvalsInvariant (messageList st) \<Longrightarrow>
   approvalsInvariant (messageList (removeToolApprovalMetadata io cid st))"
proof (cases "persistenceConfigured io \<and> (\<exists>k. isFoundHolder cid (messageList st) k)")
  case False
  then have "removeToolApprovalMetadata io cid st = st"
    using remove_unconfigured remove_nobody by blast
  then show "approvalsInvariant (messageList st) \<Longrightarrow> ?thesis" by simp
next
  case True
  then obtain k where pc: "persistenceConfigured io" and lh: "isFoundHolder cid (messageList st) k"
    by blast
  have k: "k < length (messageList st)" using lh by (simp add: isFoundHolder_def)
  assume inv: "approvalsInvariant (messageList st)"
  show ?thesis
    unfolding remove_at [OF pc lh]
    by (intro invariant_update [OF inv k] wellFormed_detach invariant_nth [OF inv k])
qed

subsection \<open>What the helpers leave alone, and the paths through the step\<close>

lemma callOnInputAvailable_frame [simp]:
  "messageList (callOnInputAvailable r t inp st) = messageList st"
  "enqueued (callOnInputAvailable r t inp st) = enqueued st"
  "spanOps (callOnInputAvailable r t inp st) = spanOps st"
  "suspendCalls (callOnInputAvailable r t inp st) = suspendCalls st"
  "executeCalls (callOnInputAvailable r t inp st) = executeCalls st"
  by (simp_all add: callOnInputAvailable_def Let_def split: option.splits)

lemma flushMessages_frame [simp]:
  "enqueued (flushMessages sqm tid msg st) = enqueued st"
  "spanOps (flushMessages sqm tid msg st) = spanOps st"
  "suspendCalls (flushMessages sqm tid msg st) = suspendCalls st"
  "executeCalls (flushMessages sqm tid msg st) = executeCalls st"
  by (simp_all add: flushMessages_def)

lemma ensureThreadExists_frame [simp]:
  "messageList (snd (ensureThreadExists intl tid st)) = messageList st"
  "enqueued (snd (ensureThreadExists intl tid st)) = enqueued st"
  "spanOps (snd (ensureThreadExists intl tid st)) = spanOps st"
  "suspendCalls (snd (ensureThreadExists intl tid st)) = suspendCalls st"
  "executeCalls (snd (ensureThreadExists intl tid st)) = executeCalls st"
  by (simp_all add: ensureThreadExists_def split: option.splits)

lemma flushMessagesBeforeSuspension_frame [simp]:
  "messageList (flushMessagesBeforeSuspension io st) = messageList st"
  "enqueued (flushMessagesBeforeSuspension io st) = enqueued st"
  "spanOps (flushMessagesBeforeSuspension io st) = spanOps st"
  "suspendCalls (flushMessagesBeforeSuspension io st) = suspendCalls st"
  "executeCalls (flushMessagesBeforeSuspension io st) = executeCalls st"
  by (simp_all add: flushMessagesBeforeSuspension_def case_prod_unfold split: option.splits bool.splits)

lemma removeToolApprovalMetadata_frame [simp]:
  "enqueued (removeToolApprovalMetadata io cid st) = enqueued st"
  "spanOps (removeToolApprovalMetadata io cid st) = spanOps st"
  "suspendCalls (removeToolApprovalMetadata io cid st) = suspendCalls st"
  "executeCalls (removeToolApprovalMetadata io cid st) = executeCalls st"
  by (simp_all add: removeToolApprovalMetadata_def Let_def split: option.splits prod.splits)

lemma toolSuspend_frame [simp]:
  "messageList (toolSuspend r inp payload st) = messageList st"
  "spanOps (toolSuspend r inp payload st) = spanOps st"
  "executeCalls (toolSuspend r inp payload st) = executeCalls st"
  by (simp_all add: toolSuspend_def Let_def)

lemma fold_toolSuspend_frame [simp]:
  "messageList (fold (toolSuspend r inp) ps st) = messageList st"
  "spanOps (fold (toolSuspend r inp) ps st) = spanOps st"
  "executeCalls (fold (toolSuspend r inp) ps st) = executeCalls st"
  by (induction ps arbitrary: st) simp_all

lemma step_at_gate:
  "\<not> providerExecuted (inputData params) \<Longrightarrow>
   resolveTool (tools r) (toolName (inputData params)) = Some t \<Longrightarrow>
   execute t = Some exec \<Longrightarrow>
   createToolCallStep r params st =
     (case tryBlock r t exec params
             ((callOnInputAvailable r t (inputData params) st)
                \<lparr> spanOps := spanOps st @
                    [StartSpan ''mastra.stream.toolCall'',
                     SetAttributes (toolCallSpanAttributes r (inputData params))] \<rparr>) of
        (Inr res, st3) \<Rightarrow> (res, st3)
      | (Inl err, st3) \<Rightarrow>
          (StepOutput \<lparr> request = inputData params, result = None, error = Some err \<rparr>,
           st3\<lparr> spanOps := spanOps st3 @ [SetStatus 2 (errorMessage err), RecordException err] \<rparr>))"
  by (simp add: createToolCallStep_def Let_def)

lemma tryBlock_suspend:
  "approvalRequired t params \<Longrightarrow> \<not> truthy (resumeData params) \<Longrightarrow>
   tryBlock r t exec params st =
     (Inr StepSuspended,
      (flushMessagesBeforeSuspension (internals r)
         (st\<lparr> enqueued := enqueued st @ [approvalChunk r (inputData params)],
               messageList := addToolApprovalMetadata (runId r) (messageList st)
                  (toolCallId (inputData params)) (toolName (inputData params)) (args (inputData params)) \<rparr>))
        \<lparr> suspendCalls := suspendCalls st @ [approvalSuspendCall r (inputData params)] \<rparr>)"
  by (simp add: tryBlock_def Let_def)

lemma tryBlock_declined:
  "approvalRequired t params \<Longrightarrow> truthy (resumeData params) \<Longrightarrow>
   \<not> truthy (get_prop (resumeData params) ''approved'') \<Longrightarrow>
   tryBlock r t exec params st =
     (Inr (StepOutput \<lparr> request = inputData params, result = Some (JStr notApprovedText), error = None \<rparr>),
      (removeToolApprovalMetadata (internals r) (toolCallId (inputData params)) st)
        \<lparr> spanOps := spanOps st @
            [EndSpan, SetAttributes [(''stream.toolCall.result'', AttrString notApprovedText)]] \<rparr>)"
  by (simp add: tryBlock_def Let_def)

lemma tryBlock_approved:
  "approvalRequired t params \<Longrightarrow> truthy (resumeData params) \<Longrightarrow>
   truthy (get_prop (resumeData params) ''approved'') \<Longrightarrow>
   tryBlock r t exec params st =
     invokeExecute r exec params (removeToolApprovalMetadata (internals r) (toolCallId (inputData params)) st)"
  by (simp add: tryBlock_def Let_def)

lemma tryBlock_ungated:
  "\<not> approvalRequired t params \<Longrightarrow> tryBlock r t exec params st = invokeExecute r exec params st"
  by (simp add: tryBlock_def Let_def)

lemma invokeExecute_calls:
  "executeCalls (snd (invokeExecute r exec params st))
     = executeCalls st @ [(args (inputData params), toolOptionsOf r params st)]"
  by (simp add: invokeExecute_def Let_def split: execution_outcome.splits)

lemma invokeExecute_throws:
  "outcome (exec (args (inputData params)) (toolOptionsOf r params st)) = Throws e \<Longrightarrow>
   fst (invokeExecute r exec params st) = Inl e
   \<and> spanOps (snd (invokeExecute r exec params st)) = spanOps st"
  by (simp add: invokeExecute_def Let_def)

lemma invokeExecute_messageList [simp]:
  "messageList (snd (invokeExecute r exec params st)) = messageList st"
  by (simp add: invokeExecute_def Let_def split: execution_outcome.splits)

lemma delete_all_keys: "(\<forall>kv \<in> set al. fst kv = k) \<Longrightarrow> AList.delete k al = []"
  by (induction al) auto

lemma unique_last_assistant:
  "isLastAssistantResponse ml k \<Longrightarrow> isLastAssistantResponse ml k' \<Longrightarrow> k = k'"
  unfolding isLastAssistantResponse_def by (meson nat_neq_iff)

subsection \<open>Provider-executed requests\<close>

text \<open>
  Claim C6. For every step input with \<open>providerExecuted\<close> true, the step returns the
  request with \<open>result\<close> equal to the input's \<open>output\<close> field, invokes neither the
  tool's execute routine nor its hook, and starts and ends exactly one telemetry span:
  the span operations it adds begin with the start of the span
  \<open>mastra.stream.toolCall\<close>, end with its end, and hold no other start or end.
\<close>

theorem providerExecuted_short_circuit:
  "providerExecuted (inputData params) \<Longrightarrow>
   fst (createToolCallStep r params st)
     = StepOutput \<lparr> request = inputData params, result = Some (output' (inputData params)), error = None \<rparr>
   \<and> executeCalls (snd (createToolCallStep r params st)) = executeCalls st
   \<and> hookCalls (snd (createToolCallStep r params st)) = hookCalls st
   \<and> (\<exists>ops. spanOps (snd (createToolCallStep r params st)) = spanOps st @ ops
         \<and> length (filter isStartSpan ops) = 1
         \<and> length (filter (\<lambda>op. op = EndSpan) ops) = 1
         \<and> hd ops = StartSpan ''mastra.stream.toolCall'' \<and> last ops = EndSpan)"
  by (simp add: createToolCallStep_def providerExecutedStep_def Let_def isStartSpan_def)

theorem providerExecuted_short_circuit_witness:
  "fst (createToolCallStep example_run
          \<lparr> inputData = example_providerInput, resumeData = JUndefined, runtimeContext = [] \<rparr> example_state)
     = StepOutput \<lparr> request = example_providerInput, result = Some (JObj [(''hits'', JNum 3)]), error = None \<rparr>
   \<and> executeCalls (snd (createToolCallStep example_run
          \<lparr> inputData = example_providerInput, resumeData = JUndefined, runtimeContext = [] \<rparr> example_state)) = []
   \<and> spanOps (snd (createToolCallStep example_run
          \<lparr> inputData = example_providerInput, resumeData = JUndefined, runtimeContext = [] \<rparr> example_state))
     = [StartSpan ''mastra.stream.toolCall'',
        SetAttributes [(''operation.name'', AttrString ''mastra.stream.toolCall''),
                       (''stream.toolCall.toolName'', AttrString ''web_search''),
                       (''stream.toolCall.toolCallId'', AttrString ''c2''),
                       (''stream.toolCall.args'', JSON_stringify (JObj [(''query'', JStr ''time'')])),
                       (''stream.toolCall.providerExecuted'', AttrBool True)],
        SetAttributes [(''stream.toolCall.result'', JSON_stringify (JObj [(''hits'', JNum 3)]))],
        EndSpan]"
proof -
  let ?p = "\<lparr> inputData = example_providerInput, resumeData = JUndefined, runtimeContext = [] \<rparr>"
  have pe: "providerExecuted (inputData ?p)" by (simp add: example_providerInput_def)
  note th = providerExecuted_short_circuit [OF pe, of example_run example_state]
  from th have 1: "fst (createToolCallStep example_run ?p example_state)
     = StepOutput \<lparr> request = example_providerInput, result = Some (JObj [(''hits'', JNum 3)]), error = None \<rparr>"
    by (simp add: example_providerInput_def)
  from th have 2: "executeCalls (snd (createToolCallStep example_run ?p example_state)) = []"
    by (simp add: example_state_def)
  have 3: "spanOps (snd (createToolCallStep example_run ?p example_state))
     = [StartSpan ''mastra.stream.toolCall'',
        SetAttributes [(''operation.name'', AttrString ''mastra.stream.toolCall''),
                       (''stream.toolCall.toolName'', AttrString ''web_search''),
                       (''stream.toolCall.toolCallId'', AttrString ''c2''),
                       (''stream.toolCall.args'', JSON_stringify (JObj [(''query'', JStr ''time'')])),
                       (''stream.toolCall.providerExecuted'', AttrBool True)],
        SetAttributes [(''stream.toolCall.result'', JSON_stringify (JObj [(''hits'', JNum 3)]))],
        EndSpan]"
    by (simp add: createToolCallStep_def providerExecutedStep_def toolCallSpanAttributes_def Let_def
        example_providerInput_def example_run_def example_state_def)
  from 1 2 3 show ?thesis by simp
qed

subsection \<open>Tool resolution\<close>

lemma resolveTool_None_iff:
  "resolveTool (Some ts) name = None \<longleftrightarrow>
     map_of ts name = None \<and> name \<notin> set objectPrototypeNames
     \<and> (\<forall>t \<in> set (map snd ts). tool_id t \<noteq> Some name)"
  by (auto simp: resolveTool_def readTool_def find_None_iff split: option.splits)

lemma resolveTool_None_unregistered:
  "resolveTool tools_opt name = None \<longleftrightarrow>
     \<not> isRegistered tools_opt name \<and> \<not> isInheritedName tools_opt name"
proof (cases tools_opt)
  case None
  then show ?thesis by (simp add: resolveTool_def isRegistered_def isInheritedName_def)
next
  case (Some ts)
  have "map_of ts name = None \<longleftrightarrow> name \<notin> set (map fst ts)"
    by (simp add: map_of_eq_None_iff)
  then show ?thesis
    unfolding Some resolveTool_None_iff by (force simp: isRegistered_def isInheritedName_def)
qed

text \<open>
  Claim C8, as amended. Resolution takes the tool under the exact key when the tool
  mapping has the key, and otherwise, for a name that \<open>Object.prototype\<close> does not
  provide, the first tool, in key order, whose declared id equals the name. For every
  step input that is not provider-executed and whose toolName is neither a key of the
  mapping, nor the declared id of one of its tools, nor a name the mapping inherits from
  \<open>Object.prototype\<close>, the step does not raise, changes nothing, and returns the request
  with \<open>result\<close> equal to the string \<open>Tool <toolName> not found\<close>. A provider-executed
  request never reaches resolution.
\<close>

theorem tool_not_found_result:
  "(tools r = Some ts \<and> map_of ts name = Some t \<longrightarrow> resolveTool (tools r) name = Some t)
   \<and> (tools r = Some ts \<and> map_of ts name = None \<and> name \<notin> set objectPrototypeNames \<longrightarrow>
        resolveTool (tools r) name = find (\<lambda>t. tool_id t = Some name) (map snd ts))
   \<and> (\<not> providerExecuted (inputData params)
        \<and> \<not> isRegistered (tools r) (toolName (inputData params))
        \<and> \<not> isInheritedName (tools r) (toolName (inputData params)) \<longrightarrow>
        createToolCallStep r params st
          = (StepOutput \<lparr> request = inputData params,
                result = Some (JStr (''Tool '' @ toolName (inputData params) @ '' not found'')),
                error = None \<rparr>, st))"
proof (intro conjI impI)
  assume "tools r = Some ts \<and> map_of ts name = Some t"
  then show "resolveTool (tools r) name = Some t" by (simp add: resolveTool_def readTool_def)
next
  assume "tools r = Some ts \<and> map_of ts name = None \<and> name \<notin> set objectPrototypeNames"
  then show "resolveTool (tools r) name = find (\<lambda>t. tool_id t = Some name) (map snd ts)"
    by (simp add: resolveTool_def readTool_def)
next
  assume "\<not> providerExecuted (inputData params)
        \<and> \<not> isRegistered (tools r) (toolName (inputData params))
        \<and> \<not> isInheritedName (tools r) (toolName (inputData params))"
  then have "\<not> providerExecuted (inputData params)"
    and "resolveTool (tools r) (toolName (inputData params)) = None"
    by (simp_all add: resolveTool_None_unregistered)
  then show "createToolCallStep r params st
          = (StepOutput \<lparr> request = inputData params,
                result = Some (JStr (''Tool '' @ toolName (inputData params) @ '' not found'')),
                error = None \<rparr>, st)"
    by (simp add: createToolCallStep_def Let_def)
qed

theorem tool_not_found_result_witness:
  "resolveTool (tools example_run) ''getServerTime'' = Some example_getServerTime
   \<and> resolveTool (tools example_run) ''getUserConfirmation'' = Some example_clientTool
   \<and> \<not> isRegistered (tools example_run) ''getWeather''
   \<and> \<not> isInheritedName (tools example_run) ''getWeather''
   \<and> createToolCallStep example_run
        \<lparr> inputData = example_unknownInput, resumeData = JUndefined, runtimeContext = [] \<rparr> example_state
      = (StepOutput \<lparr> request = example_unknownInput,
            result = Some (JStr ''Tool getWeather not found''), error = None \<rparr>, example_state)"
proof -
  let ?ts = "[(''getServerTime'', example_getServerTime), (''confirm'', example_clientTool),
              (''failing'', example_failingTool)]"
  let ?p = "\<lparr> inputData = example_unknownInput, resumeData = JUndefined, runtimeContext = [] \<rparr>"
  have 1: "resolveTool (tools example_run) ''getServerTime'' = Some example_getServerTime"
    using tool_not_found_result [of example_run ?ts "''getServerTime''" example_getServerTime]
    by (simp add: example_run_def)
  have 2: "resolveTool (tools example_run) ''getUserConfirmation'' = Some example_clientTool"
    using tool_not_found_result [of example_run ?ts "''getUserConfirmation''"]
    by (simp add: example_run_def example_getServerTime_def example_clientTool_def
        objectPrototypeNames_def)
  have 3: "\<not> isRegistered (tools example_run) ''getWeather''"
    by (simp add: example_run_def isRegistered_def
        example_getServerTime_def example_clientTool_def example_failingTool_def)
  have 4: "\<not> isInheritedName (tools example_run) ''getWeather''"
    by (simp add: example_run_def isInheritedName_def objectPrototypeNames_def)
  have 5: "createToolCallStep example_run ?p example_state
      = (StepOutput \<lparr> request = example_unknownInput,
            result = Some (JStr ''Tool getWeather not found''), error = None \<rparr>, example_state)"
    using tool_not_found_result [of example_run ?ts "''x''" example_getServerTime ?p example_state] 3 4
    by (simp add: example_unknownInput_def)
  from 1 2 3 4 5 show ?thesis by simp
qed

text \<open>
  The claim as first stated fails on a provider-executed request that names no
  registered tool: the step returns the provider's output, not the not-found string.
\<close>

theorem tool_not_found_counterexample:
  "\<not> isRegistered (tools example_run) (toolName example_providerInput)
   \<and> \<not> isInheritedName (tools example_run) (toolName example_providerInput)
   \<and> fst (createToolCallStep example_run
          \<lparr> inputData = example_providerInput, resumeData = JUndefined, runtimeContext = [] \<rparr> example_state)
       = StepOutput \<lparr> request = example_providerInput, result = Some (JObj [(''hits'', JNum 3)]), error = None \<rparr>
   \<and> fst (createToolCallStep example_run
          \<lparr> inputData = example_providerInput, resumeData = JUndefined, runtimeContext = [] \<rparr> example_state)
       \<noteq> StepOutput \<lparr> request = example_providerInput,
            result = Some (JStr ''Tool web_search not found''), error = None \<rparr>"
  by (simp add: createToolCallStep_def providerExecutedStep_def isRegistered_def isInheritedName_def
      objectPrototypeNames_def example_defs Let_def)

text \<open>
  A name the tool mapping inherits is not part of the amended claim. The model follows
  the source there: \<open>tools['constructor']\<close> is a function, which is truthy and has no
  \<open>execute\<close>, so the request for the unregistered tool \<open>constructor\<close> is passed through
  unchanged, with no \<open>result\<close>.
\<close>

lemma inherited_toolName_passes_through:
  "\<not> isRegistered (tools example_run) ''constructor''
   \<and> createToolCallStep example_run
        \<lparr> inputData = example_inheritedInput, resumeData = JUndefined, runtimeContext = [] \<rparr> example_state
      = (StepOutput \<lparr> request = example_inheritedInput, result = None, error = None \<rparr>, example_state)"
  by (simp add: isRegistered_def step_defs example_defs)

subsection \<open>Tools without an execute routine\<close>

text \<open>
  Claim C10. For every tool the step resolves (which it does when the request is not
  provider-executed) that has no execute routine, the step returns the request
  unchanged right after the input-available hook: the final state is the state the hook
  call leaves, no chunk is enqueued, the message list is untouched, the workflow is
  not suspended, no span operation is recorded, nothing is flushed and execute is not
  invoked. The approval policy flag and the tool's \<open>requireApproval\<close> are not read on
  this path, so the same holds when either is set, as in the witness.
\<close>

theorem passive_tool_pass_through:
  "\<not> providerExecuted (inputData params) \<Longrightarrow>
   resolveTool (tools r) (toolName (inputData params)) = Some t \<Longrightarrow>
   execute t = None \<Longrightarrow>
   fst (createToolCallStep r params st)
     = StepOutput \<lparr> request = inputData params, result = None, error = None \<rparr>
   \<and> snd (createToolCallStep r params st) = callOnInputAvailable r t (inputData params) st
   \<and> enqueued (snd (createToolCallStep r params st)) = enqueued st
   \<and> messageList (snd (createToolCallStep r params st)) = messageList st
   \<and> suspendCalls (snd (createToolCallStep r params st)) = suspendCalls st
   \<and> spanOps (snd (createToolCallStep r params st)) = spanOps st
   \<and> flushed (snd (createToolCallStep r params st)) = flushed st
   \<and> executeCalls (snd (createToolCallStep r params st)) = executeCalls st"
  by (simp add: createToolCallStep_def callOnInputAvailable_def Let_def split: option.splits)

theorem passive_tool_pass_through_witness:
  "approvalRequired example_clientTool
      \<lparr> inputData = example_clientInput, resumeData = JUndefined, runtimeContext = example_policyContext \<rparr>
   \<and> requireApproval example_clientTool
   \<and> fst (createToolCallStep example_run
        \<lparr> inputData = example_clientInput, resumeData = JUndefined, runtimeContext = example_policyContext \<rparr>
        example_state)
     = StepOutput \<lparr> request = example_clientInput, result = None, error = None \<rparr>
   \<and> enqueued (snd (createToolCallStep example_run
        \<lparr> inputData = example_clientInput, resumeData = JUndefined, runtimeContext = example_policyContext \<rparr>
        example_state)) = []
   \<and> spanOps (snd (createToolCallStep example_run
        \<lparr> inputData = example_clientInput, resumeData = JUndefined, runtimeContext = example_policyContext \<rparr>
        example_state)) = []
   \<and> suspendCalls (snd (createToolCallStep example_run
        \<lparr> inputData = example_clientInput, resumeData = JUndefined, runtimeContext = example_policyContext \<rparr>
        example_state)) = []"
proof -
  let ?p = "\<lparr> inputData = example_clientInput, resumeData = JUndefined, runtimeContext = example_policyContext \<rparr>"
  have a: "\<not> providerExecuted (inputData ?p)" by (simp add: example_clientInput_def)
  have b: "resolveTool (tools example_run) (toolName (inputData ?p)) = Some example_clientTool"
    by (simp add: resolveTool_def readTool_def objectPrototypeNames_def example_run_def
        example_clientInput_def example_getServerTime_def example_clientTool_def)
  have c: "execute example_clientTool = None" by (simp add: example_clientTool_def)
  have d: "approvalRequired example_clientTool ?p \<and> requireApproval example_clientTool"
    by (simp add: approvalRequired_def example_clientTool_def)
  show ?thesis
    using passive_tool_pass_through [OF a b c, of example_state] d
    by (simp add: example_state_def callOnInputAvailable_def example_clientTool_def Let_def)
qed

subsection \<open>The approval gate\<close>

text \<open>
  Claim C2, as amended. For every step input that is not provider-executed and whose
  tool resolves to a definition with an execute routine, when approval is required (the
  run's policy flag is set or the tool declares \<open>requireApproval\<close>) and no resume data is
  present, the step emits exactly one \<open>tool-call-approval\<close> chunk carrying
  \<open>{toolCallId, toolName, args}\<close>, does not invoke execute, and suspends with exactly one
  checkpoint holding the approval request and the serialized stream state, under a
  resume label equal to the toolCallId. When the in-flight response holds an assistant
  message with content, every other message stays as it was, and, for a toolCallId
  other than \<open>__proto__\<close>, the most recent such message gets the record
  \<open>{toolName, args, type: 'approval', runId}\<close> under the toolCallId (replacing a record
  already there, so that exactly one record is held for the id), its other records
  staying as they were; when there is no such message, the message list is unchanged.
\<close>

theorem approval_required_suspends:
  assumes step: "createToolCallStep r params st = (res, st')"
    and np: "\<not> providerExecuted (inputData params)"
    and rt: "resolveTool (tools r) (toolName (inputData params)) = Some t"
    and ex: "execute t = Some exec"
    and req: "truthy (runtimeContext_get (runtimeContext params) ''__mastra_requireToolApproval'')
              \<or> requireApproval t"
    and nores: "\<not> truthy (resumeData params)"
  shows "res = StepSuspended
    \<and> enqueued st' = enqueued st @
         [\<lparr> chunk_type = ''tool-call-approval'', chunk_runId = runId r, chunk_from = ChunkFromAgent,
            chunk_payload = JObj [(''toolCallId'', JStr (toolCallId (inputData params))),
                                  (''toolName'', JStr (toolName (inputData params))),
                                  (''args'', args (inputData params))] \<rparr>]
    \<and> suspendCalls st' = suspendCalls st @
         [\<lparr> suspendPayload = JObj
              [(''requireToolApproval'', JObj [(''toolCallId'', JStr (toolCallId (inputData params))),
                                               (''toolName'', JStr (toolName (inputData params))),
                                               (''args'', args (inputData params))]),
               (''__streamState'', streamState r)],
            resumeLabel = toolCallId (inputData params) \<rparr>]
    \<and> executeCalls st' = executeCalls st
    \<and> length (messageList st') = length (messageList st)
    \<and> (\<forall>k c. isLastAssistantResponse (messageList st) k
                \<and> v2_content (snd (messageList st ! k)) = Some c \<longrightarrow>
          (\<forall>j < length (messageList st). j \<noteq> k \<longrightarrow> messageList st' ! j = messageList st ! j)
          \<and> fst (messageList st' ! k) = FromResponse
          \<and> v2_id (snd (messageList st' ! k)) = v2_id (snd (messageList st ! k))
          \<and> v2_role (snd (messageList st' ! k)) = Assistant
          \<and> map_option c_parts (v2_content (snd (messageList st' ! k))) = Some (c_parts c)
          \<and> (toolCallId (inputData params) \<noteq> ''__proto__'' \<longrightarrow>
               map_of (pendingOf (snd (messageList st' ! k)))
                 = (map_of (pendingOf (snd (messageList st ! k))))
                     (toolCallId (inputData params) \<mapsto>
                        \<lparr> pa_toolName = toolName (inputData params), pa_args = args (inputData params),
                           pa_type = ''approval'', pa_runId = runId r \<rparr>)
               \<and> (distinct (map fst (pendingOf (snd (messageList st ! k)))) \<longrightarrow>
                    length (filter (\<lambda>kv. fst kv = toolCallId (inputData params))
                              (pendingOf (snd (messageList st' ! k)))) = 1)))
    \<and> ((\<forall>k. isLastAssistantResponse (messageList st) k \<longrightarrow>
              v2_content (snd (messageList st ! k)) = None) \<longrightarrow>
          messageList st' = messageList st)"
proof -
  let ?inp = "inputData params"
  let ?cid = "toolCallId ?inp"
  let ?rec = "approvalRecord (runId r) (toolName ?inp) (args ?inp)"
  let ?ml = "messageList st"
  have gate: "approvalRequired t params" using req by (simp add: approvalRequired_def)
  have res: "res = StepSuspended"
    and enq: "enqueued st' = enqueued st @ [approvalChunk r ?inp]"
    and sus: "suspendCalls st' = suspendCalls st @ [approvalSuspendCall r ?inp]"
    and exc: "executeCalls st' = executeCalls st"
    and ml: "messageList st' = addToolApprovalMetadata (runId r) ?ml ?cid (toolName ?inp) (args ?inp)"
    using step unfolding step_at_gate [OF np rt ex] tryBlock_suspend [OF gate nores]
    by auto
  have len: "length (messageList st') = length ?ml"
    using add_cases [of "runId r" ?ml ?cid "toolName ?inp" "args ?inp"] ml by auto
  have at: "\<forall>k c. isLastAssistantResponse ?ml k \<and> v2_content (snd (?ml ! k)) = Some c \<longrightarrow>
          (\<forall>j < length ?ml. j \<noteq> k \<longrightarrow> messageList st' ! j = ?ml ! j)
          \<and> fst (messageList st' ! k) = FromResponse
          \<and> v2_id (snd (messageList st' ! k)) = v2_id (snd (?ml ! k))
          \<and> v2_role (snd (messageList st' ! k)) = Assistant
          \<and> map_option c_parts (v2_content (snd (messageList st' ! k))) = Some (c_parts c)
          \<and> (?cid \<noteq> ''__proto__'' \<longrightarrow>
               map_of (pendingOf (snd (messageList st' ! k)))
                 = (map_of (pendingOf (snd (?ml ! k))))(?cid \<mapsto> ?rec)
               \<and> (distinct (map fst (pendingOf (snd (?ml ! k)))) \<longrightarrow>
                    length (filter (\<lambda>kv. fst kv = ?cid) (pendingOf (snd (messageList st' ! k)))) = 1))"
  proof (intro allI impI)
    fix k c
    assume a: "isLastAssistantResponse ?ml k \<and> v2_content (snd (?ml ! k)) = Some c"
    then have last: "isLastAssistantResponse ?ml k" and c: "v2_content (snd (?ml ! k)) = Some c"
      by simp_all
    have k: "k < length ?ml" "fst (?ml ! k) = FromResponse" "v2_role (snd (?ml ! k)) = Assistant"
      using last by (simp_all add: isLastAssistantResponse_def)
    have new: "messageList st' = ?ml[k := (fst (?ml ! k), attachApproval ?cid ?rec (snd (?ml ! k)) c)]"
      unfolding ml by (rule add_at [OF last c])
    have tgt: "snd (messageList st' ! k) = attachApproval ?cid ?rec (snd (?ml ! k)) c"
      "fst (messageList st' ! k) = FromResponse"
      using new k by simp_all
    have frame: "(\<forall>j < length ?ml. j \<noteq> k \<longrightarrow> messageList st' ! j = ?ml ! j)
          \<and> fst (messageList st' ! k) = FromResponse
          \<and> v2_id (snd (messageList st' ! k)) = v2_id (snd (?ml ! k))
          \<and> v2_role (snd (messageList st' ! k)) = Assistant
          \<and> map_option c_parts (v2_content (snd (messageList st' ! k))) = Some (c_parts c)"
      unfolding tgt using k new by (simp add: attachApproval_def)
    have rcd: "?cid \<noteq> ''__proto__'' \<longrightarrow>
               map_of (pendingOf (snd (messageList st' ! k)))
                 = (map_of (pendingOf (snd (?ml ! k))))(?cid \<mapsto> ?rec)
               \<and> (distinct (map fst (pendingOf (snd (?ml ! k)))) \<longrightarrow>
                    length (filter (\<lambda>kv. fst kv = ?cid) (pendingOf (snd (messageList st' ! k)))) = 1)"
    proof
      assume np: "?cid \<noteq> ''__proto__''"
      show "map_of (pendingOf (snd (messageList st' ! k)))
                 = (map_of (pendingOf (snd (?ml ! k))))(?cid \<mapsto> ?rec)
               \<and> (distinct (map fst (pendingOf (snd (?ml ! k)))) \<longrightarrow>
                    length (filter (\<lambda>kv. fst kv = ?cid) (pendingOf (snd (messageList st' ! k)))) = 1)"
        unfolding tgt pendingOf_attach [OF c np]
        by (simp add: update_conv' update_one_entry)
    qed
    from frame rcd show "(\<forall>j < length ?ml. j \<noteq> k \<longrightarrow> messageList st' ! j = ?ml ! j)
          \<and> fst (messageList st' ! k) = FromResponse
          \<and> v2_id (snd (messageList st' ! k)) = v2_id (snd (?ml ! k))
          \<and> v2_role (snd (messageList st' ! k)) = Assistant
          \<and> map_option c_parts (v2_content (snd (messageList st' ! k))) = Some (c_parts c)
          \<and> (?cid \<noteq> ''__proto__'' \<longrightarrow>
               map_of (pendingOf (snd (messageList st' ! k)))
                 = (map_of (pendingOf (snd (?ml ! k))))(?cid \<mapsto> ?rec)
               \<and> (distinct (map fst (pendingOf (snd (?ml ! k)))) \<longrightarrow>
                    length (filter (\<lambda>kv. fst kv = ?cid) (pendingOf (snd (messageList st' ! k)))) = 1))"
      by blast
  qed
  have none: "(\<forall>k. isLastAssistantResponse ?ml k \<longrightarrow> v2_content (snd (?ml ! k)) = None) \<longrightarrow>
          messageList st' = ?ml"
  proof
    assume h: "\<forall>k. isLastAssistantResponse ?ml k \<longrightarrow> v2_content (snd (?ml ! k)) = None"
    show "messageList st' = ?ml"
    proof (cases "\<exists>k. isLastAssistantResponse ?ml k")
      case True
      then obtain k where k: "isLastAssistantResponse ?ml k" by blast
      with h have "v2_content (snd (?ml ! k)) = None" by blast
      then show ?thesis unfolding ml using k by (simp add: add_no_content)
    next
      case False
      then show ?thesis unfolding ml by (simp add: add_no_message)
    qed
  qed
  from res enq sus exc len at none show ?thesis
    unfolding approvalChunk_def approvalSuspendCall_def approvalRecord_def by blast
qed

theorem approval_required_suspends_witness:
  "fst (createToolCallStep example_run example_gateParams example_state) = StepSuspended
   \<and> enqueued (snd (createToolCallStep example_run example_gateParams example_state))
       = [\<lparr> chunk_type = ''tool-call-approval'', chunk_runId = ''run-1'', chunk_from = ChunkFromAgent,
            chunk_payload = JObj [(''toolCallId'', JStr ''c1''), (''toolName'', JStr ''getServerTime''),
                                  (''args'', JObj [(''timezone'', JStr ''UTC'')])] \<rparr>]
   \<and> suspendCalls (snd (createToolCallStep example_run example_gateParams example_state))
       = [\<lparr> suspendPayload = JObj
              [(''requireToolApproval'', JObj [(''toolCallId'', JStr ''c1''),
                                               (''toolName'', JStr ''getServerTime''),
                                               (''args'', JObj [(''timezone'', JStr ''UTC'')])]),
               (''__streamState'', JObj [(''step'', JNum 1)])],
            resumeLabel = ''c1'' \<rparr>]
   \<and> executeCalls (snd (createToolCallStep example_run example_gateParams example_state)) = []
   \<and> map_of (pendingOf (snd (messageList
          (snd (createToolCallStep example_run example_gateParams example_state)) ! 1))) ''c1''
       = Some example_approval
   \<and> length (filter (\<lambda>kv. fst kv = ''c1'') (pendingOf (snd (messageList
          (snd (createToolCallStep example_run example_gateParams example_state)) ! 1)))) = 1
   \<and> messageList (snd (createToolCallStep example_run example_gateParams example_stateWithoutResponse))
       = messageList example_stateWithoutResponse"
proof -
  let ?s = "createToolCallStep example_run example_gateParams example_state"
  let ?n = "createToolCallStep example_run example_gateParams example_stateWithoutResponse"
  let ?c = "\<lparr> c_parts = [ToolInvocationPart
           \<lparr> inv_state = Call, inv_toolCallId = ''c1'', inv_toolName = ''getServerTime'',
             inv_args = JObj [(''timezone'', JStr ''UTC'')], inv_result = JUndefined \<rparr>],
         c_metadata = None \<rparr>"
  have step: "?s = (fst ?s, snd ?s)" by simp
  have nstep: "?n = (fst ?n, snd ?n)" by simp
  have np: "\<not> providerExecuted (inputData example_gateParams)"
    by (simp add: example_gateParams_def example_input_def)
  have rt: "resolveTool (tools example_run) (toolName (inputData example_gateParams))
      = Some example_getServerTime"
    by (simp add: resolveTool_def readTool_def example_run_def example_gateParams_def example_input_def)
  have ex: "execute example_getServerTime = Some (\<lambda>a opts. \<lparr> suspendPayloads = [],
          outcome = Returns (JObj [(''time'', JStr ''12:00''), (''timezone'', JStr ''UTC'')]) \<rparr>)"
    by (simp add: example_getServerTime_def)
  have req: "truthy (runtimeContext_get (runtimeContext example_gateParams) ''__mastra_requireToolApproval'')
              \<or> requireApproval example_getServerTime"
    by (simp add: runtimeContext_get_def example_gateParams_def example_policyContext_def)
  have nores: "\<not> truthy (resumeData example_gateParams)"
    by (simp add: example_gateParams_def)
  note th = approval_required_suspends [OF step np rt ex req nores]
  note nth = approval_required_suspends [OF nstep np rt ex req nores]
  have last: "isLastAssistantResponse (messageList example_state) 1
      \<and> v2_content (snd (messageList example_state ! 1)) = Some ?c"
    by (auto simp: isLastAssistantResponse_def example_state_def example_assistantV2_def)
  have nolast: "\<forall>k. isLastAssistantResponse (messageList example_stateWithoutResponse) k \<longrightarrow>
      v2_content (snd (messageList example_stateWithoutResponse ! k)) = None"
    by (auto simp: isLastAssistantResponse_def example_stateWithoutResponse_def less_Suc_eq)
  have cid: "toolCallId (inputData example_gateParams) \<noteq> ''__proto__''"
    by (simp add: example_gateParams_def example_input_def)
  have d: "distinct (map fst (pendingOf (snd (messageList example_state ! 1))))"
    by (simp add: pendingOf_def approvalsKey_def getMetadata_def example_state_def example_assistantV2_def)
  have p: "map_of (pendingOf (snd (messageList example_state ! 1))) = Map.empty"
    by (simp add: pendingOf_def approvalsKey_def getMetadata_def example_state_def example_assistantV2_def)
  from th have 1: "fst ?s = StepSuspended" by blast
  from th have 2: "enqueued (snd ?s)
       = [\<lparr> chunk_type = ''tool-call-approval'', chunk_runId = ''run-1'', chunk_from = ChunkFromAgent,
            chunk_payload = JObj [(''toolCallId'', JStr ''c1''), (''toolName'', JStr ''getServerTime''),
                                  (''args'', JObj [(''timezone'', JStr ''UTC'')])] \<rparr>]"
    by (simp add: example_gateParams_def example_input_def example_run_def example_state_def)
  from th have 3: "suspendCalls (snd ?s)
       = [\<lparr> suspendPayload = JObj
              [(''requireToolApproval'', JObj [(''toolCallId'', JStr ''c1''),
                                               (''toolName'', JStr ''getServerTime''),
                                               (''args'', JObj [(''timezone'', JStr ''UTC'')])]),
               (''__streamState'', JObj [(''step'', JNum 1)])],
            resumeLabel = ''c1'' \<rparr>]"
    by (simp add: example_gateParams_def example_input_def example_run_def example_state_def)
  from th have 4: "executeCalls (snd ?s) = []" by (simp add: example_state_def)
  from th last cid have m: "map_of (pendingOf (snd (messageList (snd ?s) ! 1)))
              = (map_of (pendingOf (snd (messageList example_state ! 1))))
                  (toolCallId (inputData example_gateParams) \<mapsto>
                     \<lparr> pa_toolName = toolName (inputData example_gateParams),
                        pa_args = args (inputData example_gateParams),
                        pa_type = ''approval'', pa_runId = runId example_run \<rparr>)"
    by blast
  from th last cid d have 6: "length (filter (\<lambda>kv. fst kv = toolCallId (inputData example_gateParams))
                         (pendingOf (snd (messageList (snd ?s) ! 1)))) = 1"
    by blast
  from m p have 5: "map_of (pendingOf (snd (messageList (snd ?s) ! 1))) ''c1'' = Some example_approval"
    by (simp add: example_gateParams_def example_input_def example_run_def example_approval_def)
  from 6 have 7: "length (filter (\<lambda>kv. fst kv = ''c1'') (pendingOf (snd (messageList (snd ?s) ! 1)))) = 1"
    by (simp add: example_gateParams_def example_input_def)
  from nth nolast have 8: "messageList (snd ?n) = messageList example_stateWithoutResponse"
    by blast
  from 1 2 3 4 5 7 8 show ?thesis by blast
qed

text \<open>
  The claim as first stated fails where the gate is not reached: a tool without an
  execute routine that declares \<open>requireApproval\<close>, under a set policy flag, is passed
  through, and a provider-executed request is short-circuited; neither emits a chunk or
  suspends. It also fails where the gate is reached and the in-flight response holds no
  assistant message (here the assistant message comes from memory), or holds one
  without content: the step emits the chunk and suspends, and no message gets a record.
\<close>

theorem approval_required_suspends_counterexample:
  "requireApproval example_clientTool
   \<and> truthy (runtimeContext_get example_policyContext ''__mastra_requireToolApproval'')
   \<and> resolveTool (tools example_run) ''getUserConfirmation'' = Some example_clientTool
   \<and> fst (createToolCallStep example_run
        \<lparr> inputData = example_clientInput, resumeData = JUndefined, runtimeContext = example_policyContext \<rparr>
        example_state)
      = StepOutput \<lparr> request = example_clientInput, result = None, error = None \<rparr>
   \<and> enqueued (snd (createToolCallStep example_run
        \<lparr> inputData = example_clientInput, resumeData = JUndefined, runtimeContext = example_policyContext \<rparr>
        example_state)) = []
   \<and> suspendCalls (snd (createToolCallStep example_run
        \<lparr> inputData = example_clientInput, resumeData = JUndefined, runtimeContext = example_policyContext \<rparr>
        example_state)) = []
   \<and> messageList (snd (createToolCallStep example_run
        \<lparr> inputData = example_clientInput, resumeData = JUndefined, runtimeContext = example_policyContext \<rparr>
        example_state)) = messageList example_state
   \<and> fst (createToolCallStep example_run
        \<lparr> inputData = example_providerInput, resumeData = JUndefined, runtimeContext = example_policyContext \<rparr>
        example_state)
      = StepOutput \<lparr> request = example_providerInput, result = Some (JObj [(''hits'', JNum 3)]), error = None \<rparr>
   \<and> enqueued (snd (createToolCallStep example_run
        \<lparr> inputData = example_providerInput, resumeData = JUndefined, runtimeContext = example_policyContext \<rparr>
        example_state)) = []
   \<and> suspendCalls (snd (createToolCallStep example_run
        \<lparr> inputData = example_providerInput, resumeData = JUndefined, runtimeContext = example_policyContext \<rparr>
        example_state)) = []
   \<and> fst (createToolCallStep example_run example_gateParams example_stateWithoutResponse) = StepSuspended
   \<and> length (enqueued (snd (createToolCallStep example_run example_gateParams
        example_stateWithoutResponse))) = 1
   \<and> messageList (snd (createToolCallStep example_run example_gateParams example_stateWithoutResponse))
       = [(FromInput, example_userV2), (FromMemory, example_assistantV2)]
   \<and> list_all (\<lambda>(src, msg). pendingOf msg = [])
        (messageList (snd (createToolCallStep example_run example_gateParams
           example_stateWithoutResponse)))
   \<and> fst (createToolCallStep example_run example_gateParams example_stateWithoutContent) = StepSuspended
   \<and> length (enqueued (snd (createToolCallStep example_run example_gateParams
        example_stateWithoutContent))) = 1
   \<and> messageList (snd (createToolCallStep example_run example_gateParams example_stateWithoutContent))
       = [(FromInput, example_userV2), (FromResponse, example_assistantV2\<lparr> v2_content := None \<rparr>)]
   \<and> list_all (\<lambda>(src, msg). pendingOf msg = [])
        (messageList (snd (createToolCallStep example_run example_gateParams
           example_stateWithoutContent)))"
  by (simp add: step_defs example_defs pendingOf_def approvalsKey_def)

text \<open>
  Claim C3, as amended. For every resumption of an approval suspension (a request that
  is not provider-executed, for a resolved tool with an execute routine, with approval
  required and resume data present): when the run has a save-queue manager and a thread
  id, and the toolCallId is not a name that an approval map of the message list
  inherits from its prototype, the step deletes the record for the toolCallId from the
  most recent message that holds one, leaving every other message and every other
  record as they were; when the run has no save-queue manager or no thread id, the
  message list is left as it is. When the resume data is not approved, the step returns
  the non-error result \<open>Tool call was not approved by the user\<close> with the original
  request fields and does not invoke execute; when it is approved, the step invokes
  execute once with the original args and the resume data.
\<close>

theorem approval_resume:
  assumes step: "createToolCallStep r params st = (res, st')"
    and np: "\<not> providerExecuted (inputData params)"
    and rt: "resolveTool (tools r) (toolName (inputData params)) = Some t"
    and ex: "execute t = Some exec"
    and req: "truthy (runtimeContext_get (runtimeContext params) ''__mastra_requireToolApproval'')
              \<or> requireApproval t"
    and resume: "truthy (resumeData params)"
  shows "(persistenceConfigured (internals r)
            \<and> \<not> nameInherited (toolCallId (inputData params)) (messageList st) \<longrightarrow>
            (\<forall>k. isLastHolder (toolCallId (inputData params)) (messageList st) k \<longrightarrow>
               length (messageList st') = length (messageList st)
               \<and> \<not> holdsRecord (toolCallId (inputData params)) (snd (messageList st' ! k))
               \<and> map_of (pendingOf (snd (messageList st' ! k)))
                   = (map_of (pendingOf (snd (messageList st ! k))))(toolCallId (inputData params) := None)
               \<and> (\<forall>j < length (messageList st). j \<noteq> k \<longrightarrow> messageList st' ! j = messageList st ! j)))
    \<and> (\<not> persistenceConfigured (internals r) \<longrightarrow> messageList st' = messageList st)
    \<and> (\<not> truthy (get_prop (resumeData params) ''approved'') \<longrightarrow>
          res = StepOutput \<lparr> request = inputData params,
                  result = Some (JStr ''Tool call was not approved by the user''), error = None \<rparr>
          \<and> executeCalls st' = executeCalls st)
    \<and> (truthy (get_prop (resumeData params) ''approved'') \<longrightarrow>
          (\<exists>opts. executeCalls st' = executeCalls st @ [(args (inputData params), opts)]
             \<and> opt_resumeData opts = resumeData params
             \<and> opt_toolCallId opts = toolCallId (inputData params)))"
proof -
  let ?inp = "inputData params"
  let ?cid = "toolCallId ?inp"
  let ?st1 = "(callOnInputAvailable r t ?inp st)
                \<lparr> spanOps := spanOps st @
                    [StartSpan ''mastra.stream.toolCall'', SetAttributes (toolCallSpanAttributes r ?inp)] \<rparr>"
  let ?st2 = "removeToolApprovalMetadata (internals r) ?cid ?st1"
  have gate: "approvalRequired t params" using req by (simp add: approvalRequired_def)
  have ml1: "messageList ?st1 = messageList st" by simp
  have ml: "messageList st' = messageList ?st2"
  proof (cases "truthy (get_prop (resumeData params) ''approved'')")
    case True
    show ?thesis
      using step unfolding step_at_gate [OF np rt ex] tryBlock_approved [OF gate resume True]
      by (cases "invokeExecute r exec params ?st2")
         (auto split: sum.splits dest: arg_cong [where f = "\<lambda>p. messageList (snd p)"])
  next
    case False
    show ?thesis
      using step unfolding step_at_gate [OF np rt ex] tryBlock_declined [OF gate resume False]
      by auto
  qed
  have removal: "persistenceConfigured (internals r) \<and> \<not> nameInherited ?cid (messageList st) \<longrightarrow>
            (\<forall>k. isLastHolder ?cid (messageList st) k \<longrightarrow>
               length (messageList st') = length (messageList st)
               \<and> \<not> holdsRecord ?cid (snd (messageList st' ! k))
               \<and> map_of (pendingOf (snd (messageList st' ! k)))
                   = (map_of (pendingOf (snd (messageList st ! k))))(?cid := None)
               \<and> (\<forall>j < length (messageList st). j \<noteq> k \<longrightarrow> messageList st' ! j = messageList st ! j))"
  proof (intro impI allI)
    fix k
    assume h: "persistenceConfigured (internals r) \<and> \<not> nameInherited ?cid (messageList st)"
      and lh: "isLastHolder ?cid (messageList st) k"
    from h have pc: "persistenceConfigured (internals r)"
      and ni: "\<not> nameInherited ?cid (messageList st)" by simp_all
    have fh: "isFoundHolder ?cid (messageList st) k"
      by (rule lastHolder_isFoundHolder [OF ni lh])
    have fh1: "isFoundHolder ?cid (messageList ?st1) k" using fh by simp
    have k: "k < length (messageList st)" using lh by (simp add: isLastHolder_def)
    have new: "messageList st' = (messageList st)
        [k := (fst (messageList st ! k), detachApproval ?cid (snd (messageList st ! k)))]"
      unfolding ml remove_at [OF pc fh1] by simp
    show "length (messageList st') = length (messageList st)
               \<and> \<not> holdsRecord ?cid (snd (messageList st' ! k))
               \<and> map_of (pendingOf (snd (messageList st' ! k)))
                   = (map_of (pendingOf (snd (messageList st ! k))))(?cid := None)
               \<and> (\<forall>j < length (messageList st). j \<noteq> k \<longrightarrow> messageList st' ! j = messageList st ! j)"
      unfolding new using k by (simp add: not_holds_detach pendingOf_detach delete_conv')
  qed
  have unconfigured: "\<not> persistenceConfigured (internals r) \<longrightarrow> messageList st' = messageList st"
    unfolding ml by (simp add: remove_unconfigured)
  have declined: "\<not> truthy (get_prop (resumeData params) ''approved'') \<longrightarrow>
          res = StepOutput \<lparr> request = ?inp,
                  result = Some (JStr ''Tool call was not approved by the user''), error = None \<rparr>
          \<and> executeCalls st' = executeCalls st"
  proof
    assume no: "\<not> truthy (get_prop (resumeData params) ''approved'')"
    show "res = StepOutput \<lparr> request = ?inp,
                  result = Some (JStr ''Tool call was not approved by the user''), error = None \<rparr>
          \<and> executeCalls st' = executeCalls st"
      using step unfolding step_at_gate [OF np rt ex] tryBlock_declined [OF gate resume no]
      by (auto simp: notApprovedText_def)
  qed
  have approved: "truthy (get_prop (resumeData params) ''approved'') \<longrightarrow>
          (\<exists>opts. executeCalls st' = executeCalls st @ [(args ?inp, opts)]
             \<and> opt_resumeData opts = resumeData params
             \<and> opt_toolCallId opts = ?cid)"
  proof
    assume yes: "truthy (get_prop (resumeData params) ''approved'')"
    have "executeCalls st' = executeCalls (snd (invokeExecute r exec params ?st2))"
      using step unfolding step_at_gate [OF np rt ex] tryBlock_approved [OF gate resume yes]
      by (cases "invokeExecute r exec params ?st2") (auto split: sum.splits)
    then have "executeCalls st' = executeCalls st @ [(args ?inp, toolOptionsOf r params ?st2)]"
      by (simp add: invokeExecute_calls)
    moreover have "opt_resumeData (toolOptionsOf r params ?st2) = resumeData params"
      "opt_toolCallId (toolOptionsOf r params ?st2) = ?cid"
      by (simp_all add: toolOptionsOf_def)
    ultimately show "\<exists>opts. executeCalls st' = executeCalls st @ [(args ?inp, opts)]
             \<and> opt_resumeData opts = resumeData params
             \<and> opt_toolCallId opts = ?cid"
      by blast
  qed
  from removal unconfigured declined approved show ?thesis by blast
qed

theorem approval_resume_witness:
  "holdsRecord ''c1'' (snd (messageList example_twoPendingState ! 1))
   \<and> \<not> holdsRecord ''c1''
        (snd (messageList (snd (createToolCallStep example_run example_declineParams example_twoPendingState)) ! 1))
   \<and> messageList (snd (createToolCallStep example_run example_declineParams example_twoPendingState)) ! 2
       = (FromMemory, example_otherPendingV2)
   \<and> fst (createToolCallStep example_run example_declineParams example_twoPendingState)
       = StepOutput \<lparr> request = example_input,
            result = Some (JStr ''Tool call was not approved by the user''), error = None \<rparr>
   \<and> executeCalls (snd (createToolCallStep example_run example_declineParams example_twoPendingState)) = []
   \<and> \<not> holdsRecord ''c1''
        (snd (messageList (snd (createToolCallStep example_run example_approveParams example_pendingState)) ! 1))
   \<and> (\<exists>opts. executeCalls (snd (createToolCallStep example_run example_approveParams example_pendingState))
          = [(JObj [(''timezone'', JStr ''UTC'')], opts)]
        \<and> opt_resumeData opts = JObj [(''approved'', JBool True)])
   \<and> messageList (snd (createToolCallStep example_runWithoutQueue example_declineParams example_pendingState))
       = messageList example_pendingState"
proof -
  let ?d = "createToolCallStep example_run example_declineParams example_twoPendingState"
  let ?a = "createToolCallStep example_run example_approveParams example_pendingState"
  let ?u = "createToolCallStep example_runWithoutQueue example_declineParams example_pendingState"
  note vocab = holdsRecord_def pendingOf_def approvalsKey_def getMetadata_def
  note msgs = example_userV2_def example_pendingAssistantV2_def example_otherPendingV2_def
    example_approval_def
  have ex: "execute example_getServerTime = Some (\<lambda>a opts. \<lparr> suspendPayloads = [],
          outcome = Returns (JObj [(''time'', JStr ''12:00''), (''timezone'', JStr ''UTC'')]) \<rparr>)"
    by (simp add: example_getServerTime_def)
  have pc: "persistenceConfigured (internals example_run)"
    by (simp add: persistenceConfigured_def example_run_def example_internal_def truthy_string_def)
  have npc: "\<not> persistenceConfigured (internals example_runWithoutQueue)"
    by (simp add: persistenceConfigured_def example_runWithoutQueue_def)
  have ml2: "messageList example_twoPendingState
      = [(FromMemory, example_userV2), (FromMemory, example_pendingAssistantV2),
         (FromMemory, example_otherPendingV2)]"
    by (simp add: example_twoPendingState_def)
  have ml1: "messageList example_pendingState
      = [(FromMemory, example_userV2), (FromMemory, example_pendingAssistantV2)]"
    by (simp add: example_pendingState_def)
  have h0: "holdsRecord ''c1'' (snd (messageList example_twoPendingState ! 1))"
    by (simp add: ml2 vocab msgs)
  have lh2: "isLastHolder ''c1'' (messageList example_twoPendingState) 1"
    by (auto simp: isLastHolder_def ml2 vocab msgs less_Suc_eq numeral_3_eq_3)
  have lh1: "isLastHolder ''c1'' (messageList example_pendingState) 1"
    by (auto simp: isLastHolder_def ml1 vocab msgs less_Suc_eq)
  have ni2: "\<not> nameInherited ''c1'' (messageList example_twoPendingState)"
    by (simp add: nameInherited_def inheritsName_def objectPrototypeNames_def ml2
        approvalsKey_def getMetadata_def msgs)
  have ni1: "\<not> nameInherited ''c1'' (messageList example_pendingState)"
    by (simp add: nameInherited_def inheritsName_def objectPrototypeNames_def ml1
        approvalsKey_def getMetadata_def msgs)
  have dstep: "?d = (fst ?d, snd ?d)" by simp
  have ustep: "?u = (fst ?u, snd ?u)" by simp
  have dnp: "\<not> providerExecuted (inputData example_declineParams)"
    by (simp add: example_declineParams_def example_input_def)
  have drt: "resolveTool (tools example_run) (toolName (inputData example_declineParams))
      = Some example_getServerTime"
    by (simp add: resolveTool_def readTool_def example_run_def example_declineParams_def example_input_def)
  have urt: "resolveTool (tools example_runWithoutQueue) (toolName (inputData example_declineParams))
      = Some example_getServerTime"
    by (simp add: resolveTool_def readTool_def example_runWithoutQueue_def example_run_def
        example_declineParams_def example_input_def)
  have dreq: "truthy (runtimeContext_get (runtimeContext example_declineParams) ''__mastra_requireToolApproval'')
              \<or> requireApproval example_getServerTime"
    by (simp add: runtimeContext_get_def example_declineParams_def example_policyContext_def)
  have dres: "truthy (resumeData example_declineParams)"
    by (simp add: example_declineParams_def)
  have dno: "\<not> truthy (get_prop (resumeData example_declineParams) ''approved'')"
    by (simp add: example_declineParams_def)
  have dcid: "toolCallId (inputData example_declineParams) = ''c1''"
    by (simp add: example_declineParams_def example_input_def)
  note dth = approval_resume [OF dstep dnp drt ex dreq dres]
  note uth = approval_resume [OF ustep dnp urt ex dreq dres]
  from dth pc ni2 lh2 dcid have 1: "\<not> holdsRecord ''c1'' (snd (messageList (snd ?d) ! 1))"
    by auto
  from dth pc ni2 lh2 dcid
  have "\<forall>j < length (messageList example_twoPendingState). j \<noteq> 1 \<longrightarrow>
          messageList (snd ?d) ! j = messageList example_twoPendingState ! j"
    by auto
  from this [rule_format, of 2] have 2: "messageList (snd ?d) ! 2 = (FromMemory, example_otherPendingV2)"
    by (simp add: ml2)
  from dth dno have dd: "fst ?d = StepOutput \<lparr> request = inputData example_declineParams,
            result = Some (JStr ''Tool call was not approved by the user''), error = None \<rparr>"
    "executeCalls (snd ?d) = executeCalls example_twoPendingState"
    by blast+
  from dd have 3: "fst ?d = StepOutput \<lparr> request = example_input,
            result = Some (JStr ''Tool call was not approved by the user''), error = None \<rparr>"
    by (simp add: example_declineParams_def)
  from dd have 4: "executeCalls (snd ?d) = []"
    by (simp add: example_twoPendingState_def example_pendingState_def)
  have astep: "?a = (fst ?a, snd ?a)" by simp
  have anp: "\<not> providerExecuted (inputData example_approveParams)"
    by (simp add: example_approveParams_def example_input_def)
  have art: "resolveTool (tools example_run) (toolName (inputData example_approveParams))
      = Some example_getServerTime"
    by (simp add: resolveTool_def readTool_def example_run_def example_approveParams_def example_input_def)
  have areq: "truthy (runtimeContext_get (runtimeContext example_approveParams) ''__mastra_requireToolApproval'')
              \<or> requireApproval example_getServerTime"
    by (simp add: runtimeContext_get_def example_approveParams_def example_policyContext_def)
  have ares: "truthy (resumeData example_approveParams)"
    by (simp add: example_approveParams_def)
  have ayes: "truthy (get_prop (resumeData example_approveParams) ''approved'')"
    by (simp add: example_approveParams_def)
  have acid: "toolCallId (inputData example_approveParams) = ''c1''"
    by (simp add: example_approveParams_def example_input_def)
  note ath = approval_resume [OF astep anp art ex areq ares]
  from ath pc ni1 lh1 acid have 5: "\<not> holdsRecord ''c1'' (snd (messageList (snd ?a) ! 1))"
    by auto
  from ath ayes obtain opts where
    o: "executeCalls (snd ?a) = executeCalls example_pendingState @ [(args (inputData example_approveParams), opts)]"
       "opt_resumeData opts = resumeData example_approveParams"
    by blast
  then have 6: "\<exists>opts. executeCalls (snd ?a) = [(JObj [(''timezone'', JStr ''UTC'')], opts)]
        \<and> opt_resumeData opts = JObj [(''approved'', JBool True)]"
    by (simp add: example_approveParams_def example_input_def example_pendingState_def)
  from uth npc have 7: "messageList (snd ?u) = messageList example_pendingState"
    by blast
  from h0 1 2 3 4 5 6 7 show ?thesis by blast
qed

text \<open>
  The claim as first stated fails for a run without a save-queue manager: the guard at
  the head of \<open>removeToolApprovalMetadata\<close> returns before the record is deleted, and
  the message still holds it after the resumption.
\<close>

theorem approval_resume_counterexample:
  "truthy (resumeData example_declineParams)
   \<and> truthy (runtimeContext_get (runtimeContext example_declineParams) ''__mastra_requireToolApproval'')
   \<and> holdsRecord ''c1'' (snd (messageList example_pendingState ! 1))
   \<and> fst (createToolCallStep example_runWithoutQueue example_declineParams example_pendingState)
       = StepOutput \<lparr> request = example_input,
            result = Some (JStr ''Tool call was not approved by the user''), error = None \<rparr>
   \<and> messageList (snd (createToolCallStep example_runWithoutQueue example_declineParams example_pendingState))
       = messageList example_pendingState
   \<and> holdsRecord ''c1''
        (snd (messageList (snd (createToolCallStep example_runWithoutQueue example_declineParams
                example_pendingState)) ! 1))"
  by (simp add: step_defs example_defs holdsRecord_def pendingOf_def approvalsKey_def)

text \<open>
  A toolCallId that an approval map inherits is not part of the amended claim. The
  model follows the source there: the test \<open>!!pendingToolApprovals?.[toolCallId]\<close> holds
  of every message with an approval map when the toolCallId is \<open>toString\<close>, so the
  search stops at the newest such message, which has no record under that key; the
  \<open>delete\<close> removes nothing, and the older message keeps its record.
\<close>

lemma inherited_toolCallId_keeps_record:
  "holdsRecord ''toString'' (snd (messageList example_inheritedPendingState ! 0))
   \<and> nameInherited ''toString'' (messageList example_inheritedPendingState)
   \<and> isFoundHolder ''toString'' (messageList example_inheritedPendingState) 1
   \<and> messageList (removeToolApprovalMetadata (Some example_internal) ''toString''
        example_inheritedPendingState)
       = messageList example_inheritedPendingState"
proof -
  have ml: "messageList example_inheritedPendingState
      = [(FromMemory, example_toStringPendingV2), (FromMemory, example_otherPendingV2)]"
    by (simp add: example_inheritedPendingState_def)
  have 1: "holdsRecord ''toString'' (snd (messageList example_inheritedPendingState ! 0))"
    by (simp add: ml holdsRecord_def pendingOf_def approvalsKey_def getMetadata_def
        example_toStringPendingV2_def)
  have 2: "nameInherited ''toString'' (messageList example_inheritedPendingState)"
    by (simp add: ml nameInherited_def inheritsName_def objectPrototypeNames_def approvalsKey_def
        getMetadata_def example_toStringPendingV2_def)
  have 3: "isFoundHolder ''toString'' (messageList example_inheritedPendingState) 1"
    by (simp add: ml isFoundHolder_def holdsApproval_def getMetadata_def readsTruthy_def
        objectPrototypeNames_def example_otherPendingV2_def)
  have pc: "persistenceConfigured (Some example_internal)"
    by (simp add: persistenceConfigured_def example_internal_def truthy_string_def)
  have 4: "messageList (removeToolApprovalMetadata (Some example_internal) ''toString''
        example_inheritedPendingState) = messageList example_inheritedPendingState"
    unfolding remove_at [OF pc 3]
    by (simp add: ml detachApproval_def deleteProperty_def example_otherPendingV2_def)
  from 1 2 3 4 show ?thesis by blast
qed

subsection \<open>Execution failures\<close>

text \<open>
  Claim C7. Whenever the step invokes the execute routine of a resolved tool (the
  request is not provider-executed, and approval is not required or was granted on
  resume), it invokes it once with the original args, and if that invocation throws a
  value, the step does not raise: it returns the request with \<open>error\<close> set to the
  thrown value and no \<open>result\<close>, after setting the span's status to code 2 (error) with
  the error's message and recording the exception on the span.
\<close>

theorem execute_exception_is_caught:
  assumes step: "createToolCallStep r params st = (res, st')"
    and np: "\<not> providerExecuted (inputData params)"
    and rt: "resolveTool (tools r) (toolName (inputData params)) = Some t"
    and ex: "execute t = Some exec"
    and pass: "\<not> approvalRequired t params
               \<or> (truthy (resumeData params) \<and> truthy (get_prop (resumeData params) ''approved''))"
  shows "\<exists>opts. executeCalls st' = executeCalls st @ [(args (inputData params), opts)]
     \<and> (\<forall>e. outcome (exec (args (inputData params)) opts) = Throws e \<longrightarrow>
           res = StepOutput \<lparr> request = inputData params, result = None, error = Some e \<rparr>
           \<and> spanOps st' = spanOps st @
               [StartSpan ''mastra.stream.toolCall'',
                SetAttributes (toolCallSpanAttributes r (inputData params)),
                SetStatus 2 (errorMessage e), RecordException e])"
proof -
  let ?inp = "inputData params"
  let ?cid = "toolCallId ?inp"
  let ?st1 = "(callOnInputAvailable r t ?inp st)
                \<lparr> spanOps := spanOps st @
                    [StartSpan ''mastra.stream.toolCall'', SetAttributes (toolCallSpanAttributes r ?inp)] \<rparr>"
  obtain st2 where tb: "tryBlock r t exec params ?st1 = invokeExecute r exec params st2"
    and sp: "spanOps st2 = spanOps ?st1" and ec: "executeCalls st2 = executeCalls st"
  proof (cases "approvalRequired t params")
    case False
    show ?thesis
      by (rule that [of ?st1]) (simp_all add: tryBlock_ungated [OF False])
  next
    case True
    with pass have a: "truthy (resumeData params)" "truthy (get_prop (resumeData params) ''approved'')"
      by simp_all
    show ?thesis
      by (rule that [of "removeToolApprovalMetadata (internals r) ?cid ?st1"])
         (simp_all add: tryBlock_approved [OF True a])
  qed
  let ?opts = "toolOptionsOf r params st2"
  have calls: "executeCalls st' = executeCalls st @ [(args ?inp, ?opts)]"
  proof -
    have "executeCalls st' = executeCalls (snd (invokeExecute r exec params st2))"
      using step unfolding step_at_gate [OF np rt ex] tb
      by (cases "invokeExecute r exec params st2") (auto split: sum.splits)
    then show ?thesis by (simp add: invokeExecute_calls ec)
  qed
  have caught: "\<forall>e. outcome (exec (args ?inp) ?opts) = Throws e \<longrightarrow>
           res = StepOutput \<lparr> request = ?inp, result = None, error = Some e \<rparr>
           \<and> spanOps st' = spanOps st @
               [StartSpan ''mastra.stream.toolCall'', SetAttributes (toolCallSpanAttributes r ?inp),
                SetStatus 2 (errorMessage e), RecordException e]"
  proof (intro allI impI)
    fix e assume thr: "outcome (exec (args ?inp) ?opts) = Throws e"
    from invokeExecute_throws [of exec params r st2 e, OF thr]
    obtain st3 where inv: "invokeExecute r exec params st2 = (Inl e, st3)"
      and sp3: "spanOps st3 = spanOps st2"
      by (cases "invokeExecute r exec params st2") auto
    show "res = StepOutput \<lparr> request = ?inp, result = None, error = Some e \<rparr>
           \<and> spanOps st' = spanOps st @
               [StartSpan ''mastra.stream.toolCall'', SetAttributes (toolCallSpanAttributes r ?inp),
                SetStatus 2 (errorMessage e), RecordException e]"
      using step unfolding step_at_gate [OF np rt ex] tb inv
      by (auto simp: sp3 sp)
  qed
  from calls caught show ?thesis by blast
qed

theorem execute_exception_is_caught_witness:
  "fst (createToolCallStep example_run
          \<lparr> inputData = example_failingInput, resumeData = JUndefined, runtimeContext = [] \<rparr> example_state)
     = StepOutput \<lparr> request = example_failingInput, result = None,
          error = Some (JObj [(''message'', JStr ''boom'')]) \<rparr>
   \<and> spanOps (snd (createToolCallStep example_run
          \<lparr> inputData = example_failingInput, resumeData = JUndefined, runtimeContext = [] \<rparr> example_state))
     = [StartSpan ''mastra.stream.toolCall'',
        SetAttributes [(''operation.name'', AttrString ''mastra.stream.toolCall''),
                       (''stream.toolCall.toolName'', AttrString ''failing''),
                       (''stream.toolCall.toolCallId'', AttrString ''c5''),
                       (''stream.toolCall.args'', JSON_stringify (JObj []))],
        SetStatus 2 (JStr ''boom''), RecordException (JObj [(''message'', JStr ''boom'')])]"
proof -
  let ?p = "\<lparr> inputData = example_failingInput, resumeData = JUndefined, runtimeContext = [] \<rparr>"
  let ?s = "createToolCallStep example_run ?p example_state"
  let ?exec = "\<lambda>(a :: json) (opts :: tool_options). \<lparr> suspendPayloads = [],
          outcome = Throws (JObj [(''message'', JStr ''boom'')]) \<rparr>"
  have step: "?s = (fst ?s, snd ?s)" by simp
  have np: "\<not> providerExecuted (inputData ?p)" by (simp add: example_failingInput_def)
  have rt: "resolveTool (tools example_run) (toolName (inputData ?p)) = Some example_failingTool"
    by (simp add: resolveTool_def readTool_def example_run_def example_failingInput_def)
  have ex: "execute example_failingTool = Some ?exec" by (simp add: example_failingTool_def)
  have pass: "\<not> approvalRequired example_failingTool ?p
               \<or> (truthy (resumeData ?p) \<and> truthy (get_prop (resumeData ?p) ''approved''))"
    by (simp add: approvalRequired_def runtimeContext_get_def example_failingTool_def)
  from execute_exception_is_caught [OF step np rt ex pass]
  obtain opts :: tool_options where c: "\<forall>e. outcome (?exec (args (inputData ?p)) opts) = Throws e \<longrightarrow>
           fst ?s = StepOutput \<lparr> request = inputData ?p, result = None, error = Some e \<rparr>
           \<and> spanOps (snd ?s) = spanOps example_state @
               [StartSpan ''mastra.stream.toolCall'',
                SetAttributes (toolCallSpanAttributes example_run (inputData ?p)),
                SetStatus 2 (errorMessage e), RecordException e]"
    by blast
  from c [rule_format, of "JObj [(''message'', JStr ''boom'')]"] show ?thesis
    by (simp add: errorMessage_def toolCallSpanAttributes_def example_run_def example_state_def
        example_failingInput_def)
qed

subsection \<open>The invariant of the approval bookkeeping\<close>

text \<open>
  The invariant of the bookkeeping is that, in every message, the approval map, when
  present, holds at most one record per toolCallId and is not empty. Removing approval metadata
  preserves it for every toolCallId (\<open>remove_preserves_invariant\<close>), and deletes the
  \<open>pendingToolApprovals\<close> key itself when the deletion leaves no record. Adding approval
  metadata preserves it for every toolCallId other than \<open>__proto__\<close>
  (\<open>add_preserves_invariant\<close>), and then overwrites the record under the key.
\<close>

lemma remove_drops_empty_map:
  "persistenceConfigured io \<Longrightarrow> isFoundHolder cid (messageList st) k \<Longrightarrow>
   approvalsKey (snd (messageList st ! k)) = Some p \<Longrightarrow>
   approvalsKey (snd (messageList (removeToolApprovalMetadata io cid st) ! k))
     = (if \<forall>kv \<in> set (ownRecords p). fst kv = cid then None else Some (deleteProperty cid p))"
proof -
  assume pc: "persistenceConfigured io" and fh: "isFoundHolder cid (messageList st) k"
    and p: "approvalsKey (snd (messageList st ! k)) = Some p"
  have k: "k < length (messageList st)" using fh by (simp add: isFoundHolder_def)
  have emp: "(\<forall>kv \<in> set (ownRecords p). fst kv = cid) \<longleftrightarrow> AList.delete cid (ownRecords p) = []"
    by (auto simp: AList.delete_eq filter_empty_conv)
  show ?thesis
    unfolding remove_at [OF pc fh] using k by (simp add: approvalsKey_detach [OF p] emp)
qed

lemma add_overwrites_record:
  "isLastAssistantResponse ml k \<Longrightarrow> v2_content (snd (ml ! k)) = Some c \<Longrightarrow> cid \<noteq> ''__proto__'' \<Longrightarrow>
   map_of (pendingOf (snd (addToolApprovalMetadata rid ml cid name a ! k)))
     = (map_of (pendingOf (snd (ml ! k))))(cid \<mapsto> approvalRecord rid name a)"
proof -
  assume last: "isLastAssistantResponse ml k" and c: "v2_content (snd (ml ! k)) = Some c"
    and np: "cid \<noteq> ''__proto__''"
  have k: "k < length ml" using last by (simp add: isLastAssistantResponse_def)
  have "snd (addToolApprovalMetadata rid ml cid name a ! k)
      = attachApproval cid (approvalRecord rid name a) (snd (ml ! k)) c"
    using add_at [OF last c, of rid cid name a] k by simp
  then show ?thesis by (simp add: pendingOf_attach [OF c np] update_conv')
qed

text \<open>
  Claim C9. The invariant does not survive an addition for the toolCallId \<open>__proto__\<close>.
  On the first run of the approval gate for a tool call with that id, the response's
  assistant message having no approval map yet, \<open>addToolApprovalMetadata\<close> creates the
  map \<open>{}\<close> and assigns the record to its \<open>__proto__\<close>: the record becomes the prototype
  of the map, and the map gets no key. The message is left with a
  \<open>pendingToolApprovals\<close> that is present and empty and holds no record for the id, in a
  message list that satisfied the invariant before.
\<close>

theorem approval_bookkeeping_proto_key:
  "approvalsInvariant (messageList example_state)
   \<and> fst (createToolCallStep example_run example_protoParams example_state) = StepSuspended
   \<and> messageList (snd (createToolCallStep example_run example_protoParams example_state))
       = addToolApprovalMetadata ''run-1'' (messageList example_state) ''__proto__''
           ''getServerTime'' (JObj [(''timezone'', JStr ''UTC'')])
   \<and> approvalsKey (snd (messageList
         (snd (createToolCallStep example_run example_protoParams example_state)) ! 1))
       = Some \<lparr> ownRecords = [], prototypeRecord = Some example_approval \<rparr>
   \<and> \<not> holdsRecord ''__proto__'' (snd (messageList
         (snd (createToolCallStep example_run example_protoParams example_state)) ! 1))
   \<and> \<not> approvalsWellFormed (snd (messageList
         (snd (createToolCallStep example_run example_protoParams example_state)) ! 1))
   \<and> \<not> approvalsInvariant (messageList
         (snd (createToolCallStep example_run example_protoParams example_state)))"
  by (simp add: step_defs example_defs approvalsInvariant_def approvalsWellFormed_def
      approvalsKey_def holdsRecord_def pendingOf_def)

end
